theory Spec2Isabelle
  imports Main
begin

text \<open>
  A shallow embedding of the filter engine of gorbac: the condition tree of package
  \<open>filter\<close>, its SQL renderer (\<open>render.go\<close>), its in-memory evaluator (\<open>eval.go\<close>) and
  the composer that builds one condition for a list of roles (\<open>NewFilterProgram\<close>).
  Functions keep the names of the source. Where the Go function returns an \<open>error\<close>,
  the model's result is a sum whose left summand is that error; where it updates the
  renderer, the model takes the renderer and hands back the updated one. The model comes
  first, the properties after it, one section each.
\<close>

section \<open>Strings and formatting helpers\<close>

text \<open>
  Go strings are byte sequences; they are modelled as \<open>string\<close> (a list of \<open>char\<close>).
  The helpers below are the functions of package \<open>strings\<close> and the \<open>fmt\<close> verbs that
  the filter package uses.
\<close>

definition digit_char :: "nat \<Rightarrow> char" where
  "digit_char d =
     (if d = 0 then CHR ''0'' else if d = 1 then CHR ''1'' else if d = 2 then CHR ''2''
      else if d = 3 then CHR ''3'' else if d = 4 then CHR ''4'' else if d = 5 then CHR ''5''
      else if d = 6 then CHR ''6'' else if d = 7 then CHR ''7'' else if d = 8 then CHR ''8''
      else CHR ''9'')"

text \<open>Decimal digits of a natural number, most significant first (the verb \<open>%d\<close>).\<close>

function show_nat :: "nat \<Rightarrow> string" where
  "show_nat n = (if n < 10 then [digit_char n] else show_nat (n div 10) @ [digit_char (n mod 10)])"
  by pat_completeness auto
termination
  by (relation "measure id") auto

declare show_nat.simps [simp del]

definition show_int :: "int \<Rightarrow> string" where
  "show_int i = (if i < 0 then CHR ''-'' # show_nat (nat (- i)) else show_nat (nat i))"

text \<open>\<open>strings.Join\<close>.\<close>

fun Join :: "string list \<Rightarrow> string \<Rightarrow> string" where
  "Join [] sep = []"
| "Join [x] sep = x"
| "Join (x # y # ys) sep = x @ sep @ Join (y # ys) sep"

text \<open>\<open>strings.HasPrefix\<close>.\<close>

fun HasPrefix :: "string \<Rightarrow> string \<Rightarrow> bool" where
  "HasPrefix s [] = True"
| "HasPrefix [] (p # ps) = False"
| "HasPrefix (c # cs) (p # ps) = (c = p \<and> HasPrefix cs ps)"

text \<open>\<open>strings.HasSuffix\<close>.\<close>

definition HasSuffix :: "string \<Rightarrow> string \<Rightarrow> bool" where
  "HasSuffix s suf = HasPrefix (rev s) (rev suf)"

text \<open>\<open>strings.Index\<close>: the byte offset of the first occurrence, \<open>None\<close> for \<open>-1\<close>.\<close>

fun Index :: "string \<Rightarrow> string \<Rightarrow> nat option" where
  "Index [] sub = (if sub = [] then Some 0 else None)"
| "Index (c # cs) sub =
     (if HasPrefix (c # cs) sub then Some 0
      else (case Index cs sub of None \<Rightarrow> None | Some i \<Rightarrow> Some (Suc i)))"

text \<open>\<open>strings.Contains\<close>.\<close>

definition Contains :: "string \<Rightarrow> string \<Rightarrow> bool" where
  "Contains s sub = (Index s sub \<noteq> None)"

text \<open>
  \<open>strings.TrimSpace\<close>, on the ASCII white space characters (tab, line feed, vertical
  tab, form feed, carriage return, space).
\<close>

definition is_space :: "char \<Rightarrow> bool" where
  "is_space c = (c = CHR '' '' \<or> c = CHR 0x09 \<or> c = CHR 0x0A \<or> c = CHR 0x0B
                 \<or> c = CHR 0x0C \<or> c = CHR 0x0D)"

definition TrimSpace :: "string \<Rightarrow> string" where
  "TrimSpace s = rev (dropWhile is_space (rev (dropWhile is_space s)))"

text \<open>
  \<open>fmt.Sprintf(format, arg)\<close> with one string operand, for formats built from the verb
  \<open>%s\<close> and the escape \<open>%%\<close>: the first \<open>%s\<close> consumes the operand, a later one
  prints \<open>%!s(MISSING)\<close>, and an operand that no verb consumed is reported at the end as
  \<open>%!(EXTRA string=...)\<close>. The flag says whether the operand has been consumed.
\<close>

fun Sprintf1 :: "bool \<Rightarrow> string \<Rightarrow> string \<Rightarrow> string" where
  "Sprintf1 used [] arg = (if used then [] else ''%!(EXTRA string='' @ arg @ '')'')"
| "Sprintf1 used [c] arg = c # Sprintf1 used [] arg"
| "Sprintf1 used (c # d # rest) arg =
     (if c = CHR ''%'' \<and> d = CHR ''s'' then
        (if used then ''%!s(MISSING)'' else arg) @ Sprintf1 True rest arg
      else if c = CHR ''%'' \<and> d = CHR ''%'' then CHR ''%'' # Sprintf1 used rest arg
      else c # Sprintf1 used (d # rest) arg)"

section \<open>Errors\<close>

text \<open>
  An error built by \<open>fmt.Errorf(format, args...)\<close> is kept as its format string and its
  operands (each printed as a string); \<open>Wrapf\<close> is an \<open>Errorf\<close> whose format ends in
  \<open>%w\<close> and wraps another error.
\<close>

datatype error = Errorf string "string list" | Wrapf string "string list" error

section \<open>Schema\<close>

text \<open>
  \<open>DialectName\<close>, \<open>FieldType\<close>, \<open>FieldKind\<close>, \<open>ComparisonOperator\<close> and
  \<open>LogicalOperator\<close> are string types in the source. Each is a datatype of its declared
  constants; where the source has a \<open>default\<close> branch for other strings, a further
  constructor carries such a string (never one of the declared constants).
\<close>

datatype DialectName =
    DialectSQLite | DialectMySQL | DialectPostgres | DialectPostgresNamedArgs
  | DialectOther string

fun dialect_string :: "DialectName \<Rightarrow> string" where
  "dialect_string DialectSQLite = ''sqlite''"
| "dialect_string DialectMySQL = ''mysql''"
| "dialect_string DialectPostgres = ''postgres''"
| "dialect_string DialectPostgresNamedArgs = ''postgres_pgx''"
| "dialect_string (DialectOther s) = s"

datatype FieldType =
    FieldTypeString | FieldTypeInt | FieldTypeBool | FieldTypeTimestamp | FieldTypeOther string

text \<open>\<open>FieldKindUnset\<close> is the empty string, the zero value of \<open>FieldKind\<close>.\<close>

datatype FieldKind =
    FieldKindUnset | FieldKindScalar | FieldKindBoolColumn | FieldKindJSONBool
  | FieldKindJSONList | FieldKindVirtualAlias

fun fieldkind_string :: "FieldKind \<Rightarrow> string" where
  "fieldkind_string FieldKindUnset = []"
| "fieldkind_string FieldKindScalar = ''scalar''"
| "fieldkind_string FieldKindBoolColumn = ''bool_column''"
| "fieldkind_string FieldKindJSONBool = ''json_bool''"
| "fieldkind_string FieldKindJSONList = ''json_list''"
| "fieldkind_string FieldKindVirtualAlias = ''virtual_alias''"

datatype ComparisonOperator =
    CompareEq | CompareNeq | CompareLt | CompareLte | CompareGt | CompareGte
  | CompareOther string

fun op_string :: "ComparisonOperator \<Rightarrow> string" where
  "op_string CompareEq = ''=''"
| "op_string CompareNeq = ''!=''"
| "op_string CompareLt = ''<''"
| "op_string CompareLte = ''<=''"
| "op_string CompareGt = ''>''"
| "op_string CompareGte = ''>=''"
| "op_string (CompareOther s) = s"

datatype LogicalOperator = LogicalAnd | LogicalOr | LogicalOther string

record Column =
  Table :: string
  ColumnName :: string

record Field =
  FieldName :: string
  Kind :: FieldKind
  Type :: FieldType
  Column :: Column
  JSONPath :: "string list"
  AliasFor :: string
  SupportsContains :: bool
  Expressions :: "DialectName \<rightharpoonup> string"
  AllowedComparisonOps :: "ComparisonOperator \<rightharpoonup> bool"

text \<open>
  \<open>Schema.Fields\<close> is a \<open>map[string]*Field\<close>; an entry holding a nil pointer is treated
  by every accessor as an absent entry, so the map is a partial function to fields.
  \<open>EnvOptions\<close> belongs to the CEL type checker and is left out.
\<close>

record Schema =
  SchemaName :: string
  Fields :: "string \<rightharpoonup> Field"

definition SchemaField :: "Schema \<Rightarrow> string \<Rightarrow> Field option" where
  "SchemaField s name = Fields s name"

definition ResolveAlias :: "Schema \<Rightarrow> string \<Rightarrow> Field option" where
  "ResolveAlias s name =
     (case Fields s name of
        None \<Rightarrow> None
      | Some field \<Rightarrow>
          if Kind field = FieldKindVirtualAlias then Fields s (AliasFor field)
          else Some field)"

section \<open>Runtime values\<close>

text \<open>
  A floating-point number of Go: not a number, an infinity with its sign (\<open>True\<close> for
  the negative one), or the finite number \<open>m * 2 ^ e\<close> given by mantissa and exponent.
  The type is \<open>float64\<close>; a \<open>float32\<close> has its values among these and is told apart by
  its \<open>%T\<close> text only, which the model does not keep.
\<close>

datatype float64 = NaN | Infinity bool | Finite int int

text \<open>
  The conversion \<open>int64(v)\<close> of a floating-point number discards the fraction
  (truncation towards zero). When the truncated number is not an \<open>int64\<close>, and for
  \<open>NaN\<close> and the infinities, Go leaves the result to the implementation; what is kept
  here is the smallest \<open>int64\<close>, which the amd64 compiler gives.
\<close>

definition truncated :: "int \<Rightarrow> int \<Rightarrow> int" where
  "truncated m e =
     (if 0 \<le> e then m * 2 ^ nat e else sgn m * (\<bar>m\<bar> div 2 ^ nat (- e)))"

definition isInt64 :: "int \<Rightarrow> bool" where
  "isInt64 n = (- (2 ^ 63) \<le> n \<and> n < 2 ^ 63)"

definition int64OfFloat :: "float64 \<Rightarrow> int" where
  "int64OfFloat f =
     (case f of
        Finite m e \<Rightarrow> if isInt64 (truncated m e) then truncated m e else - (2 ^ 63)
      | _ \<Rightarrow> - (2 ^ 63))"

text \<open>
  A Go value of type \<open>any\<close> as the filter package inspects it: nil, a string, a bool, a
  number of one of the integer kinds that \<open>toInt64\<close> accepts (kept as its \<open>int64\<close>
  conversion), a floating-point number, or a slice (what \<open>toAnySlice\<close> accepts).
  \<open>VOther\<close> stands for a value of any other dynamic type, named by its \<open>%T\<close> text.
\<close>

datatype val =
    VNil | VString string | VBool bool | VInt int | VFloat float64 | VList "val list"
  | VOther string

fun type_name :: "val \<Rightarrow> string" where
  "type_name VNil = ''<nil>''"
| "type_name (VString s) = ''string''"
| "type_name (VBool b) = ''bool''"
| "type_name (VInt i) = ''int64''"
| "type_name (VFloat f) = ''float64''"
| "type_name (VList xs) = ''[]interface {}''"
| "type_name (VOther t) = t"

fun toInt64 :: "val \<Rightarrow> error + int" where
  "toInt64 (VInt i) = Inr i"
| "toInt64 (VFloat f) = Inr (int64OfFloat f)"
| "toInt64 v = Inl (Errorf ''cannot convert %T to int64'' [type_name v])"

fun toAnySlice :: "val \<Rightarrow> val list option" where
  "toAnySlice (VList xs) = Some xs"
| "toAnySlice v = None"

type_synonym Bindings = "string \<rightharpoonup> val"


section \<open>Condition IR\<close>

text \<open>
  \<open>ValueExpr\<close>, \<open>PredicateExpr\<close> and \<open>Condition\<close> are Go interfaces: the constructors
  are the implementing struct types, and \<open>NilValueExpr\<close>, \<open>NilPredicate\<close> and
  \<open>NilCondition\<close> are the nil interface values (the \<open>default\<close> branch of each type
  switch).
\<close>

datatype ValueExpr =
    NilValueExpr
  | FieldRef string
  | ParamRef string
  | LiteralValue val
  | FunctionValue string "ValueExpr list"

datatype PredicateExpr =
    NilPredicate
  | StartsWithPredicate ValueExpr
  | EndsWithPredicate ValueExpr
  | ContainsPredicate ValueExpr

datatype ComprehensionKind = ComprehensionExists | ComprehensionOther string

record DialectSQL =
  Default :: string
  SQLite :: string
  MySQL :: string
  Postgres :: string

text \<open>\<open>EvalOptions\<close> is an empty struct.\<close>

datatype EvalOptions = EvalOptions

type_synonym SQLPredicateEval = "Schema \<Rightarrow> Bindings \<Rightarrow> val list \<Rightarrow> EvalOptions \<Rightarrow> error + bool"

datatype Condition =
    NilCondition
  | LogicalCondition LogicalOperator Condition Condition
  | NotCondition Condition
  | FieldPredicateCondition string
  | ComparisonCondition ValueExpr ComparisonOperator ValueExpr
  | InCondition ValueExpr "ValueExpr list"
  | ElementInCondition ValueExpr string
  | ContainsCondition string ValueExpr
  | StartsWithCondition string ValueExpr
  | EndsWithCondition string ValueExpr
  | SQLPredicateCondition string DialectSQL "ValueExpr list" "SQLPredicateEval option"
  | ConstantCondition bool
  | ListComprehensionCondition ComprehensionKind string string PredicateExpr

text \<open>\<open>DialectSQL.template\<close>.\<close>

definition template :: "DialectSQL \<Rightarrow> DialectName \<Rightarrow> string" where
  "template s d =
     (case d of
        DialectSQLite \<Rightarrow> if SQLite s \<noteq> [] then SQLite s else Default s
      | DialectMySQL \<Rightarrow> if MySQL s \<noteq> [] then MySQL s else Default s
      | DialectPostgres \<Rightarrow> if Postgres s \<noteq> [] then Postgres s else Default s
      | _ \<Rightarrow> Default s)"

section \<open>Render options, statements and the renderer state\<close>

record RenderOptions =
  Dialect :: DialectName
  PlaceholderOffset :: int
  TableAliases :: "string \<rightharpoonup> string"
  OmitTableQualifier :: bool

text \<open>\<open>NamedArgs\<close> is a map that may be nil (\<open>None\<close>).\<close>

record Statement =
  SQL :: string
  Args :: "val list"
  NamedArgs :: "Bindings option"

text \<open>\<open>bindings\<close> is a map that may be nil (\<open>None\<close>).\<close>

record renderer =
  schema :: Schema
  dialect :: DialectName
  placeholderOffset :: int
  placeholderCounter :: int
  args :: "val list"
  bindings :: "Bindings option"

record renderResult =
  sql :: string
  trivial :: bool
  unsatisfiable :: bool

text \<open>The three shapes of \<open>renderResult\<close> literals in the source.\<close>

definition resultTrivial :: renderResult where
  "resultTrivial = \<lparr>sql = [], trivial = True, unsatisfiable = False\<rparr>"

definition resultUnsat :: renderResult where
  "resultUnsat = \<lparr>sql = ''1 = 0'', trivial = False, unsatisfiable = True\<rparr>"

definition resultSQL :: "string \<Rightarrow> renderResult" where
  "resultSQL s = \<lparr>sql = s, trivial = False, unsatisfiable = False\<rparr>"

definition newRenderer :: "Schema \<Rightarrow> RenderOptions \<Rightarrow> Bindings option \<Rightarrow> renderer" where
  "newRenderer sch opts b =
     \<lparr>schema = sch, dialect = Dialect opts, placeholderOffset = PlaceholderOffset opts,
      placeholderCounter = 0, args = [], bindings = b\<rparr>"

section \<open>Renderer: arguments and column expressions\<close>

definition addArg :: "renderer \<Rightarrow> val \<Rightarrow> string \<times> renderer" where
  "addArg r v =
     (let r' = r\<lparr>placeholderCounter := placeholderCounter r + 1, args := args r @ [v]\<rparr>
      in (if dialect r' = DialectPostgres
          then CHR ''$'' # show_int (placeholderOffset r' + placeholderCounter r')
          else ''?'', r'))"

definition addBoolArg :: "renderer \<Rightarrow> bool \<Rightarrow> string \<times> renderer" where
  "addBoolArg r b =
     (case dialect r of
        DialectSQLite \<Rightarrow> if b then addArg r (VInt 1) else addArg r (VInt 0)
      | _ \<Rightarrow> addArg r (VBool b))"

definition resolveValue :: "renderer \<Rightarrow> ValueExpr \<Rightarrow> error + val" where
  "resolveValue r expr =
     (case expr of
        LiteralValue v \<Rightarrow> Inr v
      | ParamRef name \<Rightarrow>
          (case bindings r of
             None \<Rightarrow> Inl (Errorf ''missing bindings for %q'' [name])
           | Some b \<Rightarrow>
               (case b name of
                  None \<Rightarrow> Inl (Errorf ''missing binding value for %q'' [name])
                | Some v \<Rightarrow> Inr v))
      | _ \<Rightarrow> Inl (Errorf ''expression must be a literal or param'' []))"

definition invertComparisonOperator :: "ComparisonOperator \<Rightarrow> error + ComparisonOperator" where
  "invertComparisonOperator op =
     (case op of
        CompareEq \<Rightarrow> Inr CompareEq
      | CompareNeq \<Rightarrow> Inr CompareNeq
      | CompareLt \<Rightarrow> Inr CompareGt
      | CompareLte \<Rightarrow> Inr CompareGte
      | CompareGt \<Rightarrow> Inr CompareLt
      | CompareGte \<Rightarrow> Inr CompareLte
      | CompareOther s \<Rightarrow> Inl (Errorf ''unsupported comparison operator %q'' [s]))"

definition qualifyColumn :: "DialectName \<Rightarrow> Column \<Rightarrow> string" where
  "qualifyColumn d col =
     (case d of
        DialectPostgres \<Rightarrow> Table col @ ''.'' @ ColumnName col
      | _ \<Rightarrow> ''`'' @ Table col @ ''`.`'' @ ColumnName col @ ''`'')"

definition columnExpr :: "Field \<Rightarrow> DialectName \<Rightarrow> string" where
  "columnExpr f d =
     (let base = qualifyColumn d (Column f)
      in case Expressions f d of
           Some expr \<Rightarrow> if expr \<noteq> [] then Sprintf1 False expr base else base
         | None \<Rightarrow> base)"

definition jsonPath :: "Field \<Rightarrow> string" where
  "jsonPath field = ''$.'' @ Join (JSONPath field) ''.''"

text \<open>
  The loop of \<open>buildPostgresJSONAccessor\<close>: \<open>idx == len(path)-1\<close> holds exactly when no
  part is left after the current one.
\<close>

fun buildPostgresJSONAccessor :: "string \<Rightarrow> string list \<Rightarrow> bool \<Rightarrow> string" where
  "buildPostgresJSONAccessor expr [] terminalText = expr"
| "buildPostgresJSONAccessor expr (part # rest) terminalText =
     buildPostgresJSONAccessor
       (if rest = [] \<and> terminalText then expr @ ''->>'' @ [CHR 0x27] @ part @ [CHR 0x27]
        else expr @ ''->'' @ [CHR 0x27] @ part @ [CHR 0x27])
       rest terminalText"

definition json_extract_call :: "string \<Rightarrow> Field \<Rightarrow> string" where
  "json_extract_call column field =
     ''JSON_EXTRACT('' @ column @ '', '' @ [CHR 0x27] @ jsonPath field @ [CHR 0x27] @ '')''"

definition jsonExtractExpr :: "DialectName \<Rightarrow> Field \<Rightarrow> string" where
  "jsonExtractExpr d field =
     (let column = qualifyColumn d (Column field)
      in case d of
           DialectSQLite \<Rightarrow> json_extract_call column field
         | DialectMySQL \<Rightarrow> json_extract_call column field
         | DialectPostgres \<Rightarrow> buildPostgresJSONAccessor column (JSONPath field) True
         | _ \<Rightarrow> [])"

definition jsonArrayExpr :: "DialectName \<Rightarrow> Field \<Rightarrow> string" where
  "jsonArrayExpr d field =
     (let column = qualifyColumn d (Column field)
      in case d of
           DialectSQLite \<Rightarrow> json_extract_call column field
         | DialectMySQL \<Rightarrow> json_extract_call column field
         | DialectPostgres \<Rightarrow> buildPostgresJSONAccessor column (JSONPath field) False
         | _ \<Rightarrow> [])"

definition jsonArrayLengthExpr :: "DialectName \<Rightarrow> Field \<Rightarrow> string" where
  "jsonArrayLengthExpr d field =
     (let arrayExpr = jsonArrayExpr d field
      in case d of
           DialectSQLite \<Rightarrow> ''JSON_ARRAY_LENGTH(COALESCE('' @ arrayExpr @ '', JSON_ARRAY()))''
         | DialectMySQL \<Rightarrow> ''JSON_LENGTH(COALESCE('' @ arrayExpr @ '', JSON_ARRAY()))''
         | DialectPostgres \<Rightarrow>
             ''jsonb_array_length(COALESCE('' @ arrayExpr @ '', '' @ [CHR 0x27] @ ''[]''
               @ [CHR 0x27] @ ''::jsonb))''
         | _ \<Rightarrow> [])"

text \<open>
  The block that opens most render functions: look the field up and, when it is a virtual
  alias, replace it by the alias target.
\<close>

definition lookupField :: "renderer \<Rightarrow> string \<Rightarrow> error + Field" where
  "lookupField r name =
     (case SchemaField (schema r) name of
        None \<Rightarrow> Inl (Errorf ''unknown field %q'' [name])
      | Some field \<Rightarrow>
          if Kind field = FieldKindVirtualAlias then
            (case ResolveAlias (schema r) name of
               None \<Rightarrow> Inl (Errorf ''invalid alias %q'' [name])
             | Some resolved \<Rightarrow> Inr resolved)
          else Inr field)"


section \<open>Evaluator\<close>

text \<open>
  The variable map of the evaluator is a Go map; a nil map reads like an empty one, so
  \<open>vars\<close> is a partial function here and \<open>varsOf\<close> turns a possibly nil map into it
  (the first statement of \<open>EvaluateCondition\<close>, and the conversion in the renderer's
  folding branches).
\<close>

definition varsOf :: "Bindings option \<Rightarrow> Bindings" where
  "varsOf m = (case m of None \<Rightarrow> Map.empty | Some b \<Rightarrow> b)"

text \<open>Byte-wise lexicographic order, Go's \<open><\<close> on strings.\<close>

fun string_less :: "string \<Rightarrow> string \<Rightarrow> bool" where
  "string_less [] [] = False"
| "string_less [] (y # ys) = True"
| "string_less (x # xs) [] = False"
| "string_less (x # xs) (y # ys) =
     ((of_char x :: nat) < of_char y \<or> (x = y \<and> string_less xs ys))"

fun evalValueExpr :: "Schema \<Rightarrow> ValueExpr \<Rightarrow> Bindings \<Rightarrow> error + val" where
  "evalValueExpr sch (FieldRef name) vars =
     (case vars name of
        None \<Rightarrow> Inl (Errorf ''missing value for field %q'' [name])
      | Some v \<Rightarrow> Inr v)"
| "evalValueExpr sch (ParamRef name) vars =
     (case vars name of
        None \<Rightarrow> Inl (Errorf ''missing value for variable %q'' [name])
      | Some v \<Rightarrow> Inr v)"
| "evalValueExpr sch (LiteralValue v) vars = Inr v"
| "evalValueExpr sch (FunctionValue name fargs) vars =
     (if name \<noteq> ''size'' then Inl (Errorf ''unsupported function %q'' [name])
      else case fargs of
             [a] \<Rightarrow>
               (case evalValueExpr sch a vars of
                  Inl e \<Rightarrow> Inl e
                | Inr arg \<Rightarrow>
                    if arg = VNil then Inr (VInt 0)
                    else (case toAnySlice arg of
                            Some list \<Rightarrow> Inr (VInt (int (length list)))
                          | None \<Rightarrow>
                              Inl (Errorf ''size() expects a slice/array argument, got %T''
                                     [type_name arg])))
           | _ \<Rightarrow> Inl (Errorf ''size() expects one argument'' []))"
| "evalValueExpr sch NilValueExpr vars = Inl (Errorf ''unsupported value expr %T'' [''<nil>''])"

definition evalComparison ::
  "Schema \<Rightarrow> ValueExpr \<Rightarrow> ComparisonOperator \<Rightarrow> ValueExpr \<Rightarrow> Bindings \<Rightarrow> error + bool" where
  "evalComparison sch cleft op cright vars =
     (case evalValueExpr sch cleft vars of
        Inl e \<Rightarrow> Inl e
      | Inr left \<Rightarrow>
     (case evalValueExpr sch cright vars of
        Inl e \<Rightarrow> Inl e
      | Inr right \<Rightarrow>
          if left = VNil \<or> right = VNil then
            (case op of
               CompareEq \<Rightarrow> Inr (left = right)
             | CompareNeq \<Rightarrow> Inr (left \<noteq> right)
             | _ \<Rightarrow> Inl (Errorf ''operator %s not supported for null comparison'' [op_string op]))
          else
            (case left of
               VString l \<Rightarrow>
                 (case right of
                    VString r \<Rightarrow>
                      (case op of
                         CompareEq \<Rightarrow> Inr (l = r)
                       | CompareNeq \<Rightarrow> Inr (l \<noteq> r)
                       | CompareLt \<Rightarrow> Inr (string_less l r)
                       | CompareLte \<Rightarrow> Inr (\<not> string_less r l)
                       | CompareGt \<Rightarrow> Inr (string_less r l)
                       | CompareGte \<Rightarrow> Inr (\<not> string_less l r)
                       | CompareOther s \<Rightarrow> Inl (Errorf ''unsupported string operator %s'' [s]))
                  | _ \<Rightarrow>
                      Inl (Errorf ''comparison type mismatch: %T %s %T''
                             [type_name left, op_string op, type_name right]))
             | VBool l \<Rightarrow>
                 (case right of
                    VBool r \<Rightarrow>
                      (case op of
                         CompareEq \<Rightarrow> Inr (l = r)
                       | CompareNeq \<Rightarrow> Inr (l \<noteq> r)
                       | _ \<Rightarrow> Inl (Errorf ''unsupported bool operator %s'' [op_string op]))
                  | _ \<Rightarrow>
                      Inl (Errorf ''comparison type mismatch: %T %s %T''
                             [type_name left, op_string op, type_name right]))
             | _ \<Rightarrow>
                 (case toInt64 left of
                    Inl e \<Rightarrow> Inl (Wrapf ''comparison expects numeric values: %w'' [] e)
                  | Inr ln \<Rightarrow>
                 (case toInt64 right of
                    Inl e \<Rightarrow> Inl (Wrapf ''comparison expects numeric values: %w'' [] e)
                  | Inr rn \<Rightarrow>
                      (case op of
                         CompareEq \<Rightarrow> Inr (ln = rn)
                       | CompareNeq \<Rightarrow> Inr (ln \<noteq> rn)
                       | CompareLt \<Rightarrow> Inr (ln < rn)
                       | CompareLte \<Rightarrow> Inr (ln \<le> rn)
                       | CompareGt \<Rightarrow> Inr (ln > rn)
                       | CompareGte \<Rightarrow> Inr (ln \<ge> rn)
                       | CompareOther s \<Rightarrow>
                           Inl (Errorf ''unsupported numeric operator %s'' [s])))))))"

definition equalsLoose :: "val \<Rightarrow> val \<Rightarrow> bool" where
  "equalsLoose left right =
     (if left = VNil \<or> right = VNil then left = right
      else case left of
             VString l \<Rightarrow> (case right of VString r \<Rightarrow> l = r | _ \<Rightarrow> False)
           | VBool l \<Rightarrow> (case right of VBool r \<Rightarrow> l = r | _ \<Rightarrow> False)
           | _ \<Rightarrow>
               (case toInt64 left of
                  Inl e \<Rightarrow> False
                | Inr ln \<Rightarrow> (case toInt64 right of Inl e \<Rightarrow> False | Inr rn \<Rightarrow> ln = rn)))"

text \<open>
  The loop of \<open>evalIn\<close> that evaluates the right-hand values and expands every slice
  among them; \<open>rightFlat\<close> is the accumulator.
\<close>

fun evalFlatten :: "Schema \<Rightarrow> ValueExpr list \<Rightarrow> Bindings \<Rightarrow> val list \<Rightarrow> error + val list" where
  "evalFlatten sch [] vars rightFlat = Inr rightFlat"
| "evalFlatten sch (v # vs) vars rightFlat =
     (case evalValueExpr sch v vars of
        Inl e \<Rightarrow> Inl e
      | Inr right \<Rightarrow>
          (case toAnySlice right of
             Some expanded \<Rightarrow> evalFlatten sch vs vars (rightFlat @ expanded)
           | None \<Rightarrow> evalFlatten sch vs vars (rightFlat @ [right])))"

text \<open>
  The inner loop of the alias branch of \<open>evalIn\<close> over the candidates, for one list
  element: \<open>Inr True\<close> is the early \<open>return true\<close>, \<open>Inr False\<close> the end of the loop.
\<close>

fun aliasCandidates :: "string \<Rightarrow> bool \<Rightarrow> string \<Rightarrow> val list \<Rightarrow> error + bool" where
  "aliasCandidates aliasName hierarchical itemStr [] = Inr False"
| "aliasCandidates aliasName hierarchical itemStr (candidate # rest) =
     (case candidate of
        VString candStr \<Rightarrow>
          if itemStr = candStr then Inr True
          else if hierarchical \<and> HasPrefix itemStr (candStr @ ''/'') then Inr True
          else aliasCandidates aliasName hierarchical itemStr rest
      | _ \<Rightarrow>
          Inl (Errorf ''alias %q expects string values, got %T'' [aliasName, type_name candidate]))"

text \<open>The outer loop of the alias branch of \<open>evalIn\<close> over the list elements.\<close>

fun aliasItems :: "string \<Rightarrow> string \<Rightarrow> bool \<Rightarrow> val list \<Rightarrow> val list \<Rightarrow> error + bool" where
  "aliasItems aliasName resolvedName hierarchical [] rightFlat = Inr False"
| "aliasItems aliasName resolvedName hierarchical (item # rest) rightFlat =
     (case item of
        VString itemStr \<Rightarrow>
          (case aliasCandidates aliasName hierarchical itemStr rightFlat of
             Inl e \<Rightarrow> Inl e
           | Inr True \<Rightarrow> Inr True
           | Inr False \<Rightarrow> aliasItems aliasName resolvedName hierarchical rest rightFlat)
      | _ \<Rightarrow>
          Inl (Errorf ''field %q expects string elements, got %T'' [resolvedName, type_name item]))"

text \<open>The alias branch of \<open>evalIn\<close>, entered once the alias resolved to a JSON list field.\<close>

definition evalInAlias ::
  "Schema \<Rightarrow> string \<Rightarrow> Field \<Rightarrow> ValueExpr list \<Rightarrow> Bindings \<Rightarrow> error + bool" where
  "evalInAlias sch aliasName resolved values vars =
     (case vars (FieldName resolved) of
        None \<Rightarrow> Inr False
      | Some listRaw \<Rightarrow>
          if listRaw = VNil then Inr False
          else
            (case toAnySlice listRaw of
               None \<Rightarrow>
                 Inl (Errorf ''field %q expects a slice/array value, got %T''
                        [FieldName resolved, type_name listRaw])
             | Some list \<Rightarrow>
                 (case evalFlatten sch values vars [] of
                    Inl e \<Rightarrow> Inl e
                  | Inr rightFlat \<Rightarrow>
                      aliasItems aliasName (FieldName resolved) (aliasName = ''tag'')
                        list rightFlat)))"

text \<open>The final loop of \<open>evalIn\<close>: loose equality of the left value with every value.\<close>

fun evalInValues :: "Schema \<Rightarrow> val \<Rightarrow> ValueExpr list \<Rightarrow> Bindings \<Rightarrow> error + bool" where
  "evalInValues sch left [] vars = Inr False"
| "evalInValues sch left (v # vs) vars =
     (case evalValueExpr sch v vars of
        Inl e \<Rightarrow> Inl e
      | Inr right \<Rightarrow>
          (case toAnySlice right of
             Some list \<Rightarrow>
               if list_ex (equalsLoose left) list then Inr True
               else evalInValues sch left vs vars
           | None \<Rightarrow>
               if equalsLoose left right then Inr True
               else evalInValues sch left vs vars))"

definition evalInGeneral :: "Schema \<Rightarrow> ValueExpr \<Rightarrow> ValueExpr list \<Rightarrow> Bindings \<Rightarrow> error + bool" where
  "evalInGeneral sch cleft values vars =
     (case evalValueExpr sch cleft vars of
        Inl e \<Rightarrow> Inl e
      | Inr left \<Rightarrow> evalInValues sch left values vars)"

definition evalIn :: "Schema \<Rightarrow> ValueExpr \<Rightarrow> ValueExpr list \<Rightarrow> Bindings \<Rightarrow> error + bool" where
  "evalIn sch cleft values vars =
     (case cleft of
        FieldRef name \<Rightarrow>
          (case SchemaField sch name of
             Some field \<Rightarrow>
               if Kind field = FieldKindVirtualAlias then
                 (case ResolveAlias sch name of
                    None \<Rightarrow> Inl (Errorf ''invalid alias %q'' [name])
                  | Some resolved \<Rightarrow>
                      if Kind resolved = FieldKindJSONList
                      then evalInAlias sch name resolved values vars
                      else evalInGeneral sch cleft values vars)
               else evalInGeneral sch cleft values vars
           | None \<Rightarrow> evalInGeneral sch cleft values vars)
      | _ \<Rightarrow> evalInGeneral sch cleft values vars)"


text \<open>
  The block shared by \<open>evalElementIn\<close> and \<open>evalListComprehension\<close>: resolve the field
  to a JSON list field and read its value; \<open>Inr None\<close> is the early \<open>return false\<close> for
  a missing or nil list, \<open>Inr (Some (fieldName, list))\<close> the list to scan.
\<close>

definition evalListField ::
  "Schema \<Rightarrow> string \<Rightarrow> Bindings \<Rightarrow> error + (string \<times> val list) option" where
  "evalListField sch name vars =
     (case SchemaField sch name of
        None \<Rightarrow> Inl (Errorf ''unknown field %q'' [name])
      | Some field0 \<Rightarrow>
          (case (if Kind field0 = FieldKindVirtualAlias then
                   (case ResolveAlias sch name of
                      None \<Rightarrow> Inl (Errorf ''invalid alias %q'' [name])
                    | Some resolved \<Rightarrow> Inr (resolved, FieldName resolved))
                 else Inr (field0, name)) of
             Inl e \<Rightarrow> Inl e
           | Inr (field, fieldName) \<Rightarrow>
               if Kind field \<noteq> FieldKindJSONList
               then Inl (Errorf ''field %q is not a JSON list'' [name])
               else
                 (case vars fieldName of
                    None \<Rightarrow> Inr None
                  | Some listRaw \<Rightarrow>
                      if listRaw = VNil then Inr None
                      else
                        (case toAnySlice listRaw of
                           None \<Rightarrow>
                             Inl (Errorf ''field %q expects a slice/array value, got %T''
                                    [fieldName, type_name listRaw])
                         | Some list \<Rightarrow> Inr (Some (fieldName, list))))))"

definition evalElementIn :: "Schema \<Rightarrow> ValueExpr \<Rightarrow> string \<Rightarrow> Bindings \<Rightarrow> error + bool" where
  "evalElementIn sch element name vars =
     (case evalListField sch name vars of
        Inl e \<Rightarrow> Inl e
      | Inr None \<Rightarrow> Inr False
      | Inr (Some (fieldName, list)) \<Rightarrow>
          (case evalValueExpr sch element vars of
             Inl e \<Rightarrow> Inl e
           | Inr el \<Rightarrow> Inr (list_ex (equalsLoose el) list)))"

text \<open>
  The three item loops of \<open>evalListComprehension\<close> differ only in the test applied to
  each string element.
\<close>

fun existsItems :: "(string \<Rightarrow> bool) \<Rightarrow> string \<Rightarrow> val list \<Rightarrow> error + bool" where
  "existsItems test fieldName [] = Inr False"
| "existsItems test fieldName (item # rest) =
     (case item of
        VString s \<Rightarrow> if test s then Inr True else existsItems test fieldName rest
      | _ \<Rightarrow>
          Inl (Errorf ''field %q expects string elements, got %T'' [fieldName, type_name item]))"

definition evalListComprehension ::
  "Schema \<Rightarrow> ComprehensionKind \<Rightarrow> string \<Rightarrow> PredicateExpr \<Rightarrow> Bindings \<Rightarrow> error + bool" where
  "evalListComprehension sch kind name predicate vars =
     (case kind of
        ComprehensionOther k \<Rightarrow> Inl (Errorf ''unsupported comprehension kind %q'' [k])
      | ComprehensionExists \<Rightarrow>
     (case evalListField sch name vars of
        Inl e \<Rightarrow> Inl e
      | Inr None \<Rightarrow> Inr False
      | Inr (Some (fieldName, list)) \<Rightarrow>
          (case predicate of
             StartsWithPredicate prefixExpr \<Rightarrow>
               (case evalValueExpr sch prefixExpr vars of
                  Inl e \<Rightarrow> Inl e
                | Inr (VString pre) \<Rightarrow> existsItems (\<lambda>s. HasPrefix s pre) fieldName list
                | Inr prefixRaw \<Rightarrow>
                    Inl (Errorf ''startsWith expects string prefix, got %T'' [type_name prefixRaw]))
           | EndsWithPredicate suffixExpr \<Rightarrow>
               (case evalValueExpr sch suffixExpr vars of
                  Inl e \<Rightarrow> Inl e
                | Inr (VString suf) \<Rightarrow> existsItems (\<lambda>s. HasSuffix s suf) fieldName list
                | Inr suffixRaw \<Rightarrow>
                    Inl (Errorf ''endsWith expects string suffix, got %T'' [type_name suffixRaw]))
           | ContainsPredicate subExpr \<Rightarrow>
               (case evalValueExpr sch subExpr vars of
                  Inl e \<Rightarrow> Inl e
                | Inr (VString sub) \<Rightarrow> existsItems (\<lambda>s. Contains s sub) fieldName list
                | Inr subRaw \<Rightarrow>
                    Inl (Errorf ''contains expects string substring, got %T'' [type_name subRaw]))
           | NilPredicate \<Rightarrow> Inl (Errorf ''unsupported predicate type %T'' [''<nil>'']))))"

definition evalContains :: "Schema \<Rightarrow> string \<Rightarrow> ValueExpr \<Rightarrow> Bindings \<Rightarrow> error + bool" where
  "evalContains sch name valueExpr vars =
     (case vars name of
        None \<Rightarrow> Inl (Errorf ''missing value for field %q'' [name])
      | Some (VString str) \<Rightarrow>
          (case evalValueExpr sch valueExpr vars of
             Inl e \<Rightarrow> Inl e
           | Inr (VString needle) \<Rightarrow> Inr (Contains str needle)
           | Inr needleRaw \<Rightarrow>
               Inl (Errorf ''contains() requires string needle, got %T'' [type_name needleRaw]))
      | Some raw \<Rightarrow>
          Inl (Errorf ''contains() requires string field %q, got %T'' [name, type_name raw]))"

definition evalStartsWith :: "Schema \<Rightarrow> string \<Rightarrow> ValueExpr \<Rightarrow> Bindings \<Rightarrow> error + bool" where
  "evalStartsWith sch name valueExpr vars =
     (case vars name of
        None \<Rightarrow> Inl (Errorf ''missing value for field %q'' [name])
      | Some (VString str) \<Rightarrow>
          (case evalValueExpr sch valueExpr vars of
             Inl e \<Rightarrow> Inl e
           | Inr (VString pre) \<Rightarrow> if pre = [] then Inr True else Inr (HasPrefix str pre)
           | Inr prefixRaw \<Rightarrow>
               Inl (Errorf ''startsWith() requires string prefix, got %T'' [type_name prefixRaw]))
      | Some raw \<Rightarrow>
          Inl (Errorf ''startsWith() requires string field %q, got %T'' [name, type_name raw]))"

definition evalEndsWith :: "Schema \<Rightarrow> string \<Rightarrow> ValueExpr \<Rightarrow> Bindings \<Rightarrow> error + bool" where
  "evalEndsWith sch name valueExpr vars =
     (case vars name of
        None \<Rightarrow> Inl (Errorf ''missing value for field %q'' [name])
      | Some (VString str) \<Rightarrow>
          (case evalValueExpr sch valueExpr vars of
             Inl e \<Rightarrow> Inl e
           | Inr (VString suf) \<Rightarrow> if suf = [] then Inr True else Inr (HasSuffix str suf)
           | Inr suffixRaw \<Rightarrow>
               Inl (Errorf ''endsWith() requires string suffix, got %T'' [type_name suffixRaw]))
      | Some raw \<Rightarrow>
          Inl (Errorf ''endsWith() requires string field %q, got %T'' [name, type_name raw]))"

text \<open>The argument loop of the \<open>SQLPredicateCondition\<close> case of \<open>EvaluateCondition\<close>.\<close>

fun evalArgs :: "Schema \<Rightarrow> ValueExpr list \<Rightarrow> Bindings \<Rightarrow> val list \<Rightarrow> error + val list" where
  "evalArgs sch [] vars acc = Inr acc"
| "evalArgs sch (expr # rest) vars acc =
     (case evalValueExpr sch expr vars of
        Inl e \<Rightarrow> Inl e
      | Inr v \<Rightarrow> evalArgs sch rest vars (acc @ [v]))"

fun EvaluateCondition :: "Schema \<Rightarrow> Condition \<Rightarrow> Bindings \<Rightarrow> EvalOptions \<Rightarrow> error + bool" where
  "EvaluateCondition sch (LogicalCondition op cl cr) vars opts =
     (case EvaluateCondition sch cl vars opts of
        Inl e \<Rightarrow> Inl e
      | Inr left \<Rightarrow>
          (case op of
             LogicalAnd \<Rightarrow> if \<not> left then Inr False else EvaluateCondition sch cr vars opts
           | LogicalOr \<Rightarrow> if left then Inr True else EvaluateCondition sch cr vars opts
           | LogicalOther s \<Rightarrow> Inl (Errorf ''unsupported logical operator %s'' [s])))"
| "EvaluateCondition sch (NotCondition c) vars opts =
     (case EvaluateCondition sch c vars opts of
        Inl e \<Rightarrow> Inl e
      | Inr v \<Rightarrow> Inr (\<not> v))"
| "EvaluateCondition sch (FieldPredicateCondition name) vars opts =
     (case vars name of
        None \<Rightarrow> Inl (Errorf ''missing value for field %q'' [name])
      | Some (VBool b) \<Rightarrow> Inr b
      | Some v \<Rightarrow> Inl (Errorf ''field %q expects bool value, got %T'' [name, type_name v]))"
| "EvaluateCondition sch (ComparisonCondition cl op cr) vars opts =
     evalComparison sch cl op cr vars"
| "EvaluateCondition sch (InCondition cl values) vars opts = evalIn sch cl values vars"
| "EvaluateCondition sch (ElementInCondition element name) vars opts =
     evalElementIn sch element name vars"
| "EvaluateCondition sch (ContainsCondition name v) vars opts = evalContains sch name v vars"
| "EvaluateCondition sch (StartsWithCondition name v) vars opts = evalStartsWith sch name v vars"
| "EvaluateCondition sch (EndsWithCondition name v) vars opts = evalEndsWith sch name v vars"
| "EvaluateCondition sch (ListComprehensionCondition kind name iterVar predicate) vars opts =
     evalListComprehension sch kind name predicate vars"
| "EvaluateCondition sch (SQLPredicateCondition name tmpl pargs ev) vars opts =
     (case ev of
        None \<Rightarrow>
          Inl (Errorf ''sql predicate %q does not support in-memory evaluation'' [name])
      | Some f \<Rightarrow>
          (case evalArgs sch pargs vars [] of
             Inl e \<Rightarrow> Inl e
           | Inr vs \<Rightarrow> f sch vars vs opts))"
| "EvaluateCondition sch (ConstantCondition b) vars opts = Inr b"
| "EvaluateCondition sch NilCondition vars opts =
     Inl (Errorf ''unsupported condition type %T'' [''<nil>''])"


section \<open>Renderer: leaf conditions\<close>

text \<open>
  Every render function takes the renderer state and returns either an error or the
  result with the updated state (\<open>placeholderCounter\<close> and \<open>args\<close> are the fields that
  change). After an error the state is never read again: \<open>Render\<close> returns the error.
  The \<open>field == nil\<close> guards of the source cannot fire, every caller passing a field it
  has just looked up, and are left out.
\<close>

definition apostrophe :: string where
  "apostrophe = [CHR 0x27]"

definition jsonBoolPredicate :: "renderer \<Rightarrow> Field \<Rightarrow> error + string" where
  "jsonBoolPredicate r field =
     (let expr = jsonExtractExpr (dialect r) field
      in case dialect r of
           DialectSQLite \<Rightarrow> Inr (expr @ '' IS TRUE'')
         | DialectMySQL \<Rightarrow>
             Inr (''COALESCE('' @ expr @ '', CAST('' @ apostrophe @ ''false'' @ apostrophe
                  @ '' AS JSON)) = CAST('' @ apostrophe @ ''true'' @ apostrophe @ '' AS JSON)'')
         | DialectPostgres \<Rightarrow> Inr (''('' @ expr @ '')::boolean IS TRUE'')
         | _ \<Rightarrow> Inl (Errorf ''unsupported dialect %s'' [dialect_string (dialect r)]))"

definition renderFieldPredicate :: "renderer \<Rightarrow> string \<Rightarrow> error + renderResult \<times> renderer" where
  "renderFieldPredicate r name =
     (case lookupField r name of
        Inl e \<Rightarrow> Inl e
      | Inr field \<Rightarrow>
          (case Kind field of
             FieldKindJSONBool \<Rightarrow>
               (case jsonBoolPredicate r field of
                  Inl e \<Rightarrow> Inl e
                | Inr s \<Rightarrow> Inr (resultSQL s, r))
           | _ \<Rightarrow>
               if Type field \<noteq> FieldTypeBool
               then Inl (Errorf ''field %q cannot be used as a predicate'' [name])
               else
                 (let column = columnExpr field (dialect r)
                  in case dialect r of
                       DialectSQLite \<Rightarrow> Inr (resultSQL (column @ '' != 0''), r)
                     | _ \<Rightarrow> Inr (resultSQL (column @ '' IS TRUE''), r))))"

text \<open>The final \<open>Sprintf("%s %s %s", ...)\<close> of a comparison, on the pair that \<open>addArg\<close> returns.\<close>

definition comparisonSQL ::
  "string \<Rightarrow> ComparisonOperator \<Rightarrow> string \<times> renderer \<Rightarrow> error + renderResult \<times> renderer" where
  "comparisonSQL lhs op pr =
     Inr (resultSQL (lhs @ '' '' @ op_string op @ '' '' @ fst pr), snd pr)"

definition renderFieldComparison ::
  "renderer \<Rightarrow> Field \<Rightarrow> ComparisonOperator \<Rightarrow> ValueExpr \<Rightarrow> error + renderResult \<times> renderer" where
  "renderFieldComparison r field op right =
     (case resolveValue r right of
        Inl e \<Rightarrow> Inl e
      | Inr v \<Rightarrow>
          (let column = columnExpr field (dialect r)
           in if v = VNil then
                (case op of
                   CompareEq \<Rightarrow> Inr (resultSQL (column @ '' IS NULL''), r)
                 | CompareNeq \<Rightarrow> Inr (resultSQL (column @ '' IS NOT NULL''), r)
                 | _ \<Rightarrow>
                     Inl (Errorf ''operator %s not supported for null comparison'' [op_string op]))
              else
                (case Type field of
                   FieldTypeString \<Rightarrow>
                     (case v of
                        VString str \<Rightarrow> comparisonSQL column op (addArg r (VString str))
                      | _ \<Rightarrow> Inl (Errorf ''field %q expects string value'' [FieldName field]))
                 | FieldTypeInt \<Rightarrow>
                     (case toInt64 v of
                        Inl e \<Rightarrow>
                          Inl (Wrapf ''field %q expects integer value: %w'' [FieldName field] e)
                      | Inr num \<Rightarrow> comparisonSQL column op (addArg r (VInt num)))
                 | FieldTypeTimestamp \<Rightarrow>
                     (case toInt64 v of
                        Inl e \<Rightarrow>
                          Inl (Wrapf ''field %q expects integer value: %w'' [FieldName field] e)
                      | Inr num \<Rightarrow> comparisonSQL column op (addArg r (VInt num)))
                 | FieldTypeBool \<Rightarrow>
                     (case v of
                        VBool b \<Rightarrow> comparisonSQL column op (addBoolArg r b)
                      | _ \<Rightarrow> Inl (Errorf ''field %q expects bool value'' [FieldName field]))
                 | FieldTypeOther t \<Rightarrow>
                     Inl (Errorf ''unsupported field type %q for %s'' [t, FieldName field]))))"

definition renderJSONBoolComparison ::
  "renderer \<Rightarrow> Field \<Rightarrow> ComparisonOperator \<Rightarrow> ValueExpr \<Rightarrow> error + renderResult \<times> renderer" where
  "renderJSONBoolComparison r field op right =
     (case resolveValue r right of
        Inl e \<Rightarrow> Inl e
      | Inr (VBool v) \<Rightarrow>
          (let jsonExpr = jsonExtractExpr (dialect r) field
           in case dialect r of
                DialectSQLite \<Rightarrow>
                  (case op of
                     CompareEq \<Rightarrow>
                       if v then Inr (resultSQL (jsonExpr @ '' IS TRUE''), r)
                       else Inr (resultSQL (''NOT('' @ jsonExpr @ '' IS TRUE)''), r)
                   | CompareNeq \<Rightarrow>
                       if v then Inr (resultSQL (''NOT('' @ jsonExpr @ '' IS TRUE)''), r)
                       else Inr (resultSQL (jsonExpr @ '' IS TRUE''), r)
                   | _ \<Rightarrow>
                       Inl (Errorf ''operator %s not supported for boolean JSON field''
                              [op_string op]))
              | DialectMySQL \<Rightarrow>
                  (let boolStr = (if v then ''true'' else ''false'')
                   in Inr (resultSQL (jsonExpr @ '' '' @ op_string op @ '' CAST('' @ apostrophe
                             @ boolStr @ apostrophe @ '' AS JSON)''), r))
              | DialectPostgres \<Rightarrow>
                  (let pr = addArg r (VBool v)
                   in Inr (resultSQL (''('' @ jsonExpr @ '')::boolean '' @ op_string op @ '' ''
                             @ fst pr), snd pr))
              | _ \<Rightarrow> Inl (Errorf ''unsupported dialect %s'' [dialect_string (dialect r)]))
      | Inr raw \<Rightarrow> Inl (Errorf ''field %q expects bool value'' [FieldName field]))"

definition renderFunctionComparison ::
  "renderer \<Rightarrow> string \<Rightarrow> ValueExpr list \<Rightarrow> ComparisonOperator \<Rightarrow> ValueExpr
     \<Rightarrow> error + renderResult \<times> renderer" where
  "renderFunctionComparison r fname fargs op right =
     (if fname \<noteq> ''size''
      then Inl (Errorf ''unsupported function %s in comparison'' [fname])
      else case fargs of
             [FieldRef argName] \<Rightarrow>
               (case lookupField r argName of
                  Inl e \<Rightarrow> Inl e
                | Inr field \<Rightarrow>
                    if Kind field \<noteq> FieldKindJSONList
                    then Inl (Errorf ''size() only supports json list fields, got %q''
                                [FieldName field])
                    else
                      (case resolveValue r right of
                         Inl e \<Rightarrow> Inl e
                       | Inr raw \<Rightarrow>
                           (case toInt64 raw of
                              Inl e \<Rightarrow>
                                Inl (Wrapf ''size() comparison expects integer value: %w'' [] e)
                            | Inr num \<Rightarrow>
                                comparisonSQL (jsonArrayLengthExpr (dialect r) field) op
                                  (addArg r (VInt num)))))
           | [a] \<Rightarrow> Inl (Errorf ''size() argument must be a field'' [])
           | _ \<Rightarrow> Inl (Errorf ''size() expects one argument'' []))"

text \<open>The \<open>case *FieldRef\<close> branch of \<open>renderComparison\<close>.\<close>

definition renderComparisonField ::
  "renderer \<Rightarrow> string \<Rightarrow> ComparisonOperator \<Rightarrow> ValueExpr \<Rightarrow> error + renderResult \<times> renderer" where
  "renderComparisonField r name op right =
     (case lookupField r name of
        Inl e \<Rightarrow> Inl e
      | Inr field \<Rightarrow>
          (case Kind field of
             FieldKindJSONBool \<Rightarrow> renderJSONBoolComparison r field op right
           | FieldKindJSONList \<Rightarrow>
               Inl (Errorf ''field %q does not support comparison'' [name])
           | _ \<Rightarrow> renderFieldComparison r field op right))"

text \<open>
  The folding branch shared by \<open>renderComparison\<close> and \<open>renderInCondition\<close>: a condition
  without column references is decided by the evaluator on the bindings.
\<close>

definition foldResult :: "renderer \<Rightarrow> error + bool \<Rightarrow> error + renderResult \<times> renderer" where
  "foldResult r res =
     (case res of
        Inl e \<Rightarrow> Inl e
      | Inr ok \<Rightarrow> if ok then Inr (resultTrivial, r) else Inr (resultUnsat, r))"

text \<open>
  \<open>renderComparison\<close>. In the \<open>default\<close> branch the source calls itself with the right
  operand (a \<open>FieldRef\<close> or a \<open>FunctionValue\<close>) moved to the left, which enters the branch
  of that type; the model calls that branch directly.
\<close>

definition renderComparison ::
  "renderer \<Rightarrow> ValueExpr \<Rightarrow> ComparisonOperator \<Rightarrow> ValueExpr \<Rightarrow> error + renderResult \<times> renderer" where
  "renderComparison r cleft op cright =
     (case cleft of
        FieldRef name \<Rightarrow> renderComparisonField r name op cright
      | FunctionValue fname fargs \<Rightarrow> renderFunctionComparison r fname fargs op cright
      | _ \<Rightarrow>
          (case cright of
             FieldRef rname \<Rightarrow>
               (case invertComparisonOperator op of
                  Inl e \<Rightarrow> Inl e
                | Inr op' \<Rightarrow> renderComparisonField r rname op' cleft)
           | FunctionValue fname fargs \<Rightarrow>
               (case invertComparisonOperator op of
                  Inl e \<Rightarrow> Inl e
                | Inr op' \<Rightarrow> renderFunctionComparison r fname fargs op' cleft)
           | _ \<Rightarrow>
               foldResult r (evalComparison (schema r) cleft op cright (varsOf (bindings r)))))"


section \<open>Renderer: membership\<close>

definition dquote :: string where
  "dquote = [CHR 0x22]"

text \<open>
  The loop that \<open>renderInCondition\<close> and \<open>renderAliasInList\<close> both start with: resolve
  every value and expand a slice into its elements; \<open>flat\<close> is the accumulator.
\<close>

fun renderFlatten :: "renderer \<Rightarrow> ValueExpr list \<Rightarrow> val list \<Rightarrow> error + val list" where
  "renderFlatten r [] flat = Inr flat"
| "renderFlatten r (v # vs) flat =
     (case resolveValue r v of
        Inl e \<Rightarrow> Inl e
      | Inr raw \<Rightarrow>
          (case toAnySlice raw of
             Some list \<Rightarrow> renderFlatten r vs (flat @ list)
           | None \<Rightarrow> renderFlatten r vs (flat @ [raw])))"

text \<open>The placeholder loop of \<open>renderInCondition\<close>.\<close>

fun inPlaceholders ::
  "renderer \<Rightarrow> Field \<Rightarrow> val list \<Rightarrow> string list \<Rightarrow> error + string list \<times> renderer" where
  "inPlaceholders r field [] placeholders = Inr (placeholders, r)"
| "inPlaceholders r field (raw # rest) placeholders =
     (if raw = VNil
      then Inl (Errorf ''field %q does not support IN() with null values'' [FieldName field])
      else
        (case Type field of
           FieldTypeString \<Rightarrow>
             (case raw of
                VString str \<Rightarrow>
                  (let pr = addArg r (VString str)
                   in inPlaceholders (snd pr) field rest (placeholders @ [fst pr]))
              | _ \<Rightarrow> Inl (Errorf ''field %q expects string values'' [FieldName field]))
         | FieldTypeInt \<Rightarrow>
             (case toInt64 raw of
                Inl e \<Rightarrow> Inl (Wrapf ''field %q expects integer values: %w'' [FieldName field] e)
              | Inr num \<Rightarrow>
                  (let pr = addArg r (VInt num)
                   in inPlaceholders (snd pr) field rest (placeholders @ [fst pr])))
         | FieldTypeTimestamp \<Rightarrow>
             (case toInt64 raw of
                Inl e \<Rightarrow> Inl (Wrapf ''field %q expects integer values: %w'' [FieldName field] e)
              | Inr num \<Rightarrow>
                  (let pr = addArg r (VInt num)
                   in inPlaceholders (snd pr) field rest (placeholders @ [fst pr])))
         | _ \<Rightarrow> Inl (Errorf ''field %q does not support IN()'' [FieldName field])))"

text \<open>
  The body of the loop of \<open>renderAliasInList\<close> for one string value: the dialect switch,
  returning the condition text and the state after its one or two \<open>addArg\<close> calls.
\<close>

definition aliasInCondition ::
  "renderer \<Rightarrow> string \<Rightarrow> bool \<Rightarrow> string \<Rightarrow> error + string \<times> renderer" where
  "aliasInCondition r arrayExpr hierarchical str =
     (case dialect r of
        DialectSQLite \<Rightarrow>
          (let p1 = addArg r (VString (''%'' @ dquote @ str @ dquote @ ''%''));
               exactMatch = arrayExpr @ '' LIKE '' @ fst p1
           in if hierarchical then
                (let p2 = addArg (snd p1) (VString (''%'' @ dquote @ str @ ''/%''));
                     prefixMatch = arrayExpr @ '' LIKE '' @ fst p2
                 in Inr (''('' @ exactMatch @ '' OR '' @ prefixMatch @ '')'', snd p2))
              else Inr (exactMatch, snd p1))
      | DialectMySQL \<Rightarrow>
          (let p1 = addArg r (VString (dquote @ str @ dquote));
               exactMatch = ''JSON_CONTAINS('' @ arrayExpr @ '', '' @ fst p1 @ '')''
           in if hierarchical then
                (let p2 = addArg (snd p1) (VString (''%'' @ dquote @ str @ ''/%''));
                     prefixMatch = arrayExpr @ '' LIKE '' @ fst p2
                 in Inr (''('' @ exactMatch @ '' OR '' @ prefixMatch @ '')'', snd p2))
              else Inr (exactMatch, snd p1))
      | DialectPostgres \<Rightarrow>
          (let p1 = addArg r (VString (dquote @ str @ dquote));
               exactMatch = arrayExpr @ '' @> jsonb_build_array('' @ fst p1 @ ''::json)''
           in if hierarchical then
                (let p2 = addArg (snd p1) (VString (''%'' @ dquote @ str @ ''/%''));
                     prefixMatch = ''('' @ arrayExpr @ '')::text LIKE '' @ fst p2
                 in Inr (''('' @ exactMatch @ '' OR '' @ prefixMatch @ '')'', snd p2))
              else Inr (exactMatch, snd p1))
      | _ \<Rightarrow> Inl (Errorf ''unsupported dialect %s'' [dialect_string (dialect r)]))"

text \<open>The loop of \<open>renderAliasInList\<close> over the flattened values.\<close>

fun aliasInLoop ::
  "renderer \<Rightarrow> string \<Rightarrow> string \<Rightarrow> bool \<Rightarrow> val list \<Rightarrow> string list
     \<Rightarrow> error + string list \<times> renderer" where
  "aliasInLoop r aliasName arrayExpr hierarchical [] conditions = Inr (conditions, r)"
| "aliasInLoop r aliasName arrayExpr hierarchical (raw # rest) conditions =
     (if raw = VNil
      then Inl (Errorf ''alias %q does not support IN() with null values'' [aliasName])
      else
        (case raw of
           VString str \<Rightarrow>
             (case aliasInCondition r arrayExpr hierarchical str of
                Inl e \<Rightarrow> Inl e
              | Inr cr \<Rightarrow>
                  aliasInLoop (snd cr) aliasName arrayExpr hierarchical rest
                    (conditions @ [fst cr]))
         | _ \<Rightarrow> Inl (Errorf ''alias %q expects string values'' [aliasName])))"

definition renderAliasInList ::
  "renderer \<Rightarrow> string \<Rightarrow> Field \<Rightarrow> ValueExpr list \<Rightarrow> error + renderResult \<times> renderer" where
  "renderAliasInList r aliasName field values =
     (case renderFlatten r values [] of
        Inl e \<Rightarrow> Inl e
      | Inr flat \<Rightarrow>
          if flat = [] then Inr (resultUnsat, r)
          else
            (case aliasInLoop r aliasName (jsonArrayExpr (dialect r) field)
                    (aliasName = ''tag'') flat [] of
               Inl e \<Rightarrow> Inl e
             | Inr cr \<Rightarrow>
                 (case fst cr of
                    [c] \<Rightarrow> Inr (resultSQL c, snd cr)
                  | conditions \<Rightarrow>
                      Inr (resultSQL (''('' @ Join conditions '' OR '' @ '')''), snd cr))))"

definition renderInCondition ::
  "renderer \<Rightarrow> ValueExpr \<Rightarrow> ValueExpr list \<Rightarrow> error + renderResult \<times> renderer" where
  "renderInCondition r cleft values =
     (case cleft of
        FieldRef name \<Rightarrow>
          (case SchemaField (schema r) name of
             None \<Rightarrow> Inl (Errorf ''unknown field %q'' [name])
           | Some field \<Rightarrow>
               if Kind field = FieldKindVirtualAlias then
                 (case ResolveAlias (schema r) name of
                    None \<Rightarrow> Inl (Errorf ''invalid alias %q'' [name])
                  | Some resolved \<Rightarrow>
                      if Kind resolved = FieldKindJSONList
                      then renderAliasInList r name resolved values
                      else Inl (Errorf ''alias %q does not support IN()'' [name]))
               else if Kind field = FieldKindJSONList then
                 Inl (Errorf (''field %q does not support IN(); use element-in ('' @ dquote @ ''x''
                             @ dquote @ '' in %s)'') [name, name])
               else
                 (case renderFlatten r values [] of
                    Inl e \<Rightarrow> Inl e
                  | Inr flat \<Rightarrow>
                      if flat = [] then Inr (resultUnsat, r)
                      else
                        (case inPlaceholders r field flat [] of
                           Inl e \<Rightarrow> Inl e
                         | Inr pr \<Rightarrow>
                             Inr (resultSQL (columnExpr field (dialect r) @ '' IN (''
                                    @ Join (fst pr) '','' @ '')''), snd pr))))
      | _ \<Rightarrow> foldResult r (evalIn (schema r) cleft values (varsOf (bindings r))))"

definition renderElementInCondition ::
  "renderer \<Rightarrow> ValueExpr \<Rightarrow> string \<Rightarrow> error + renderResult \<times> renderer" where
  "renderElementInCondition r element name =
     (case lookupField r name of
        Inl e \<Rightarrow> Inl e
      | Inr field \<Rightarrow>
          if Kind field \<noteq> FieldKindJSONList
          then Inl (Errorf ''field %q is not a JSON list'' [name])
          else
            (case resolveValue r element of
               Inl e \<Rightarrow> Inl e
             | Inr (VString str) \<Rightarrow>
                 (let arrayExpr = jsonArrayExpr (dialect r) field
                  in case dialect r of
                       DialectSQLite \<Rightarrow>
                         (let pr = addArg r (VString (''%'' @ dquote @ str @ dquote @ ''%''))
                          in Inr (resultSQL (arrayExpr @ '' LIKE '' @ fst pr), snd pr))
                     | DialectMySQL \<Rightarrow>
                         (let pr = addArg r (VString (dquote @ str @ dquote))
                          in Inr (resultSQL (''JSON_CONTAINS('' @ arrayExpr @ '', '' @ fst pr
                                    @ '')''), snd pr))
                     | DialectPostgres \<Rightarrow>
                         (let pr = addArg r (VString (dquote @ str @ dquote))
                          in Inr (resultSQL (arrayExpr @ '' @> jsonb_build_array('' @ fst pr
                                    @ ''::json)''), snd pr))
                     | _ \<Rightarrow>
                         Inl (Errorf ''unsupported dialect %s'' [dialect_string (dialect r)]))
             | Inr raw \<Rightarrow>
                 Inl (Errorf ''list membership requires string value, got %T'' [type_name raw])))"


section \<open>Renderer: list comprehensions and string matches\<close>

definition resolveString :: "renderer \<Rightarrow> ValueExpr \<Rightarrow> error + string" where
  "resolveString r expr =
     (case resolveValue r expr of
        Inl e \<Rightarrow> Inl e
      | Inr (VString str) \<Rightarrow> Inr str
      | Inr raw \<Rightarrow> Inl (Errorf ''expected string value, got %T'' [type_name raw]))"

definition buildJSONArrayLike :: "renderer \<Rightarrow> string \<Rightarrow> string \<Rightarrow> string \<times> renderer" where
  "buildJSONArrayLike r arrayExpr pattern =
     (case dialect r of
        DialectSQLite \<Rightarrow>
          (let pr = addArg r (VString pattern) in (arrayExpr @ '' LIKE '' @ fst pr, snd pr))
      | DialectMySQL \<Rightarrow>
          (let pr = addArg r (VString pattern) in (arrayExpr @ '' LIKE '' @ fst pr, snd pr))
      | DialectPostgres \<Rightarrow>
          (let pr = addArg r (VString pattern)
           in (''('' @ arrayExpr @ '')::text LIKE '' @ fst pr, snd pr))
      | _ \<Rightarrow> ([], r))"

definition wrapWithNullCheck :: "renderer \<Rightarrow> string \<Rightarrow> string \<Rightarrow> string" where
  "wrapWithNullCheck r arrayExpr cond =
     (case dialect r of
        DialectSQLite \<Rightarrow>
          ''('' @ cond @ '' AND '' @ arrayExpr @ '' IS NOT NULL AND '' @ arrayExpr @ '' != ''
            @ apostrophe @ ''[]'' @ apostrophe @ '')''
      | DialectMySQL \<Rightarrow>
          ''('' @ cond @ '' AND '' @ arrayExpr @ '' IS NOT NULL AND JSON_LENGTH('' @ arrayExpr
            @ '') > 0)''
      | DialectPostgres \<Rightarrow>
          ''('' @ cond @ '' AND '' @ arrayExpr @ '' IS NOT NULL AND jsonb_array_length(''
            @ arrayExpr @ '') > 0)''
      | _ \<Rightarrow> cond)"

text \<open>The \<open>case DialectSQLite, DialectMySQL\<close> branch of \<open>renderJSONArrayStartsWith\<close>.\<close>

definition startsWithLike :: "renderer \<Rightarrow> string \<Rightarrow> string \<Rightarrow> error + renderResult \<times> renderer" where
  "startsWithLike r arrayExpr pre =
     (let exactMatch = buildJSONArrayLike r arrayExpr (''%'' @ dquote @ pre @ dquote @ ''%'');
          prefixMatch = buildJSONArrayLike (snd exactMatch) arrayExpr (''%'' @ dquote @ pre @ ''%'');
          cond = ''('' @ fst exactMatch @ '' OR '' @ fst prefixMatch @ '')''
      in Inr (resultSQL (wrapWithNullCheck r arrayExpr cond), snd prefixMatch))"

definition renderJSONArrayStartsWith ::
  "renderer \<Rightarrow> Field \<Rightarrow> string \<Rightarrow> error + renderResult \<times> renderer" where
  "renderJSONArrayStartsWith r field pre =
     (let arrayExpr = jsonArrayExpr (dialect r) field
      in case dialect r of
           DialectSQLite \<Rightarrow> startsWithLike r arrayExpr pre
         | DialectMySQL \<Rightarrow> startsWithLike r arrayExpr pre
         | DialectPostgres \<Rightarrow>
             (let p1 = addArg r (VString (dquote @ pre @ dquote));
                  exactMatch = arrayExpr @ '' @> jsonb_build_array('' @ fst p1 @ ''::json)'';
                  p2 = addArg (snd p1) (VString (''%'' @ dquote @ pre @ ''%''));
                  prefixMatch = ''('' @ arrayExpr @ '')::text LIKE '' @ fst p2;
                  cond = ''('' @ exactMatch @ '' OR '' @ prefixMatch @ '')''
              in Inr (resultSQL (wrapWithNullCheck r arrayExpr cond), snd p2))
         | _ \<Rightarrow> Inl (Errorf ''unsupported dialect %s'' [dialect_string (dialect r)]))"

definition renderJSONArrayEndsWith ::
  "renderer \<Rightarrow> Field \<Rightarrow> string \<Rightarrow> error + renderResult \<times> renderer" where
  "renderJSONArrayEndsWith r field suf =
     (let arrayExpr = jsonArrayExpr (dialect r) field;
          likeExpr = buildJSONArrayLike r arrayExpr (''%'' @ suf @ dquote @ ''%'')
      in Inr (resultSQL (wrapWithNullCheck r arrayExpr (fst likeExpr)), snd likeExpr))"

definition renderJSONArrayContains ::
  "renderer \<Rightarrow> Field \<Rightarrow> string \<Rightarrow> error + renderResult \<times> renderer" where
  "renderJSONArrayContains r field sub =
     (let arrayExpr = jsonArrayExpr (dialect r) field;
          likeExpr = buildJSONArrayLike r arrayExpr (''%'' @ sub @ ''%'')
      in Inr (resultSQL (wrapWithNullCheck r arrayExpr (fst likeExpr)), snd likeExpr))"

definition renderListComprehension ::
  "renderer \<Rightarrow> string \<Rightarrow> PredicateExpr \<Rightarrow> error + renderResult \<times> renderer" where
  "renderListComprehension r name predicate =
     (case lookupField r name of
        Inl e \<Rightarrow> Inl e
      | Inr field \<Rightarrow>
          if Kind field \<noteq> FieldKindJSONList
          then Inl (Errorf ''field %q is not a JSON list'' [name])
          else
            (case predicate of
               StartsWithPredicate prefixExpr \<Rightarrow>
                 (case resolveString r prefixExpr of
                    Inl e \<Rightarrow> Inl e
                  | Inr pre \<Rightarrow> renderJSONArrayStartsWith r field pre)
             | EndsWithPredicate suffixExpr \<Rightarrow>
                 (case resolveString r suffixExpr of
                    Inl e \<Rightarrow> Inl e
                  | Inr suf \<Rightarrow> renderJSONArrayEndsWith r field suf)
             | ContainsPredicate subExpr \<Rightarrow>
                 (case resolveString r subExpr of
                    Inl e \<Rightarrow> Inl e
                  | Inr sub \<Rightarrow> renderJSONArrayContains r field sub)
             | NilPredicate \<Rightarrow>
                 Inl (Errorf ''unsupported predicate type %T in comprehension'' [''<nil>''])))"

text \<open>
  \<open>renderContainsCondition\<close>, \<open>renderStartsWithCondition\<close> and
  \<open>renderEndsWithCondition\<close> are one function up to the method name in the error texts
  and the position of the \<open>%\<close> signs in the pattern; \<open>renderStringMatch\<close> is that function,
  with the method name and the pattern builder as parameters.
\<close>

definition renderStringMatch ::
  "string \<Rightarrow> (string \<Rightarrow> string) \<Rightarrow> renderer \<Rightarrow> string \<Rightarrow> ValueExpr
     \<Rightarrow> error + renderResult \<times> renderer" where
  "renderStringMatch method pattern r name valueExpr =
     (case SchemaField (schema r) name of
        None \<Rightarrow> Inl (Errorf ''unknown field %q'' [name])
      | Some field \<Rightarrow>
          if Type field \<noteq> FieldTypeString
          then Inl (Errorf (''field %q does not support '' @ method @ ''()'') [name])
          else
            (case resolveValue r valueExpr of
               Inl e \<Rightarrow> Inl e
             | Inr (VString needle) \<Rightarrow>
                 if needle = [] then Inr (resultTrivial, r)
                 else
                   (let column = columnExpr field (dialect r);
                        pr = addArg r (VString (pattern needle))
                    in case dialect r of
                         DialectPostgres \<Rightarrow>
                           Inr (resultSQL (column @ '' ILIKE '' @ fst pr), snd pr)
                       | _ \<Rightarrow> Inr (resultSQL (column @ '' LIKE '' @ fst pr), snd pr))
             | Inr raw \<Rightarrow>
                 Inl (Errorf (method @ ''() expects string value, got %T'') [type_name raw])))"

definition renderContainsCondition ::
  "renderer \<Rightarrow> string \<Rightarrow> ValueExpr \<Rightarrow> error + renderResult \<times> renderer" where
  "renderContainsCondition = renderStringMatch ''contains'' (\<lambda>needle. ''%'' @ needle @ ''%'')"

definition renderStartsWithCondition ::
  "renderer \<Rightarrow> string \<Rightarrow> ValueExpr \<Rightarrow> error + renderResult \<times> renderer" where
  "renderStartsWithCondition = renderStringMatch ''startsWith'' (\<lambda>pre. pre @ ''%'')"

definition renderEndsWithCondition ::
  "renderer \<Rightarrow> string \<Rightarrow> ValueExpr \<Rightarrow> error + renderResult \<times> renderer" where
  "renderEndsWithCondition = renderStringMatch ''endsWith'' (\<lambda>suf. ''%'' @ suf)"

section \<open>Renderer: SQL predicates\<close>

text \<open>
  \<open>interpolateSQLColumns\<close>: the loop over the byte index \<open>i\<close> is a recursion on the rest
  \<open>template[i:]\<close> of the template, with the builder \<open>out\<close> as accumulator.
\<close>

function interpolateSQLColumns :: "renderer \<Rightarrow> string \<Rightarrow> string \<Rightarrow> error + string" where
  "interpolateSQLColumns r [] out = Inr out"
| "interpolateSQLColumns r [c] out = Inr (out @ [c])"
| "interpolateSQLColumns r (c # d # rest) out =
     (if c = CHR ''{'' \<and> d = CHR ''{'' then
        (case Index rest ''}}'' of
           None \<Rightarrow> Inl (Errorf ''unterminated {{...}} placeholder in SQL template'' [])
         | Some end \<Rightarrow>
             (let name = TrimSpace (take end rest)
              in if name = []
                 then Inl (Errorf ''empty {{...}} placeholder in SQL template'' [])
                 else
                   (case SchemaField (schema r) name of
                      None \<Rightarrow>
                        Inl (Errorf ''unknown field %q in SQL template placeholder'' [name])
                    | Some field0 \<Rightarrow>
                        (case (if Kind field0 = FieldKindVirtualAlias
                               then ResolveAlias (schema r) name else Some field0) of
                           None \<Rightarrow>
                             Inl (Errorf ''invalid alias %q in SQL template placeholder'' [name])
                         | Some field \<Rightarrow>
                             if Kind field = FieldKindUnset \<or> Kind field = FieldKindScalar
                                \<or> Kind field = FieldKindBoolColumn
                             then interpolateSQLColumns r (drop (end + 2) rest)
                                    (out @ columnExpr field (dialect r))
                             else
                               Inl (Errorf
                                 ''field %q (kind %s) not supported in SQL template placeholders''
                                 [name, fieldkind_string (Kind field)])))))
      else interpolateSQLColumns r (d # rest) (out @ [c]))"
  by pat_completeness auto
termination
  by (relation "measure (\<lambda>(r, t, out). length t)") auto

text \<open>The loop of \<open>replaceSQLArgPlaceholders\<close> over the bytes of the template.\<close>

fun replaceLoop :: "string \<Rightarrow> string list \<Rightarrow> nat \<Rightarrow> string \<Rightarrow> error + string" where
  "replaceLoop [] placeholders argIdx out =
     (if argIdx \<noteq> length placeholders
      then Inl (Errorf ''template has fewer '?' than args (%d)''
                  [show_nat (length placeholders)])
      else Inr out)"
| "replaceLoop (c # rest) placeholders argIdx out =
     (if c = CHR ''?'' then
        (if argIdx \<ge> length placeholders
         then Inl (Errorf ''template has more '?' than args (%d)''
                     [show_nat (length placeholders)])
         else replaceLoop rest placeholders (argIdx + 1) (out @ placeholders ! argIdx))
      else replaceLoop rest placeholders argIdx (out @ [c]))"

definition replaceSQLArgPlaceholders :: "string \<Rightarrow> string list \<Rightarrow> error + string" where
  "replaceSQLArgPlaceholders tmpl placeholders =
     (if length placeholders = 0 then
        (if Contains tmpl ''?''
         then Inl (Errorf ''template contains '?' but no args were provided'' [])
         else Inr tmpl)
      else replaceLoop tmpl placeholders 0 [])"

text \<open>The argument loop of \<open>renderSQLPredicateCondition\<close>.\<close>

fun predicatePlaceholders ::
  "renderer \<Rightarrow> ValueExpr list \<Rightarrow> string list \<Rightarrow> error + string list \<times> renderer" where
  "predicatePlaceholders r [] placeholders = Inr (placeholders, r)"
| "predicatePlaceholders r (arg # rest) placeholders =
     (case resolveValue r arg of
        Inl e \<Rightarrow> Inl e
      | Inr (VBool b) \<Rightarrow>
          (let pr = addBoolArg r b
           in predicatePlaceholders (snd pr) rest (placeholders @ [fst pr]))
      | Inr raw \<Rightarrow>
          (let pr = addArg r raw
           in predicatePlaceholders (snd pr) rest (placeholders @ [fst pr])))"

definition renderSQLPredicateCondition ::
  "renderer \<Rightarrow> string \<Rightarrow> DialectSQL \<Rightarrow> ValueExpr list \<Rightarrow> error + renderResult \<times> renderer" where
  "renderSQLPredicateCondition r name tmpl pargs =
     (let t = template tmpl (dialect r)
      in if TrimSpace t = []
         then Inl (Errorf ''missing SQL template for predicate %q (dialect %s)''
                     [name, dialect_string (dialect r)])
         else
           (case interpolateSQLColumns r t [] of
              Inl e \<Rightarrow> Inl e
            | Inr sql0 \<Rightarrow>
                (case predicatePlaceholders r pargs [] of
                   Inl e \<Rightarrow> Inl e
                 | Inr pr \<Rightarrow>
                     (case replaceSQLArgPlaceholders sql0 (fst pr) of
                        Inl e \<Rightarrow> Inl (Wrapf ''predicate %q: %w'' [name] e)
                      | Inr sql1 \<Rightarrow>
                          if TrimSpace sql1 = [] then Inr (resultTrivial, snd pr)
                          else Inr (resultSQL sql1, snd pr)))))"


section \<open>Renderer: logical structure and the entry points\<close>

fun flattenLogicalConditions ::
  "Condition \<Rightarrow> LogicalOperator \<Rightarrow> Condition list \<Rightarrow> Condition list" where
  "flattenLogicalConditions NilCondition operator out = out"
| "flattenLogicalConditions (LogicalCondition op cl cr) operator out =
     (if op = operator
      then flattenLogicalConditions cr operator (flattenLogicalConditions cl operator out)
      else out @ [LogicalCondition op cl cr])"
| "flattenLogicalConditions c operator out = out @ [c]"

text \<open>
  The filtering loop of \<open>combineAndAll\<close>: \<open>None\<close> is the early return on an
  unsatisfiable operand, \<open>Some filtered\<close> the operands that are left.
\<close>

fun andFilter :: "renderResult list \<Rightarrow> renderResult list \<Rightarrow> renderResult list option" where
  "andFilter [] filtered = Some filtered"
| "andFilter (c # cs) filtered =
     (if unsatisfiable c then None
      else if trivial c then andFilter cs filtered
      else andFilter cs (filtered @ [c]))"

definition combineAndAll :: "renderResult list \<Rightarrow> renderResult" where
  "combineAndAll conds =
     (case andFilter conds [] of
        None \<Rightarrow> resultUnsat
      | Some [] \<Rightarrow> resultTrivial
      | Some [c] \<Rightarrow> c
      | Some filtered \<Rightarrow> resultSQL (''('' @ Join (map sql filtered) '' AND '' @ '')''))"

text \<open>
  The filtering loop of \<open>combineOrAll\<close>: \<open>None\<close> is the early return on a trivial
  operand.
\<close>

fun orFilter :: "renderResult list \<Rightarrow> renderResult list \<Rightarrow> renderResult list option" where
  "orFilter [] filtered = Some filtered"
| "orFilter (c # cs) filtered =
     (if trivial c then None
      else if unsatisfiable c then orFilter cs filtered
      else orFilter cs (filtered @ [c]))"

definition combineOrAll :: "renderResult list \<Rightarrow> renderResult" where
  "combineOrAll conds =
     (case orFilter conds [] of
        None \<Rightarrow> resultTrivial
      | Some [] \<Rightarrow> resultUnsat
      | Some [c] \<Rightarrow> c
      | Some filtered \<Rightarrow> resultSQL (''('' @ Join (map sql filtered) '' OR '' @ '')''))"

text \<open>The final switch of \<open>renderLogicalCondition\<close>, on the rendered operands.\<close>

definition combineLogical ::
  "LogicalOperator \<Rightarrow> renderResult list \<times> renderer \<Rightarrow> error + renderResult \<times> renderer" where
  "combineLogical op rr =
     (case op of
        LogicalAnd \<Rightarrow> Inr (combineAndAll (fst rr), snd rr)
      | LogicalOr \<Rightarrow> Inr (combineOrAll (fst rr), snd rr)
      | LogicalOther s \<Rightarrow> Inl (Errorf ''unsupported logical operator %s'' [s]))"

text \<open>What \<open>renderNotCondition\<close> makes of the rendered operand.\<close>

definition negateResult :: "renderResult \<Rightarrow> renderResult" where
  "negateResult child =
     (if trivial child then resultUnsat
      else if unsatisfiable child then resultTrivial
      else resultSQL (''NOT ('' @ sql child @ '')''))"

text \<open>The number of nodes of a condition tree, the measure for the recursion below.\<close>

fun nodes :: "Condition \<Rightarrow> nat" where
  "nodes (LogicalCondition op cl cr) = Suc (nodes cl + nodes cr)"
| "nodes (NotCondition c) = Suc (nodes c)"
| "nodes c = 1"

lemma nodes_flatten:
  "sum_list (map nodes (flattenLogicalConditions c operator out))
     \<le> sum_list (map nodes out) + nodes c"
proof (induction c arbitrary: out)
  case (LogicalCondition op cl cr)
  have "sum_list (map nodes (flattenLogicalConditions cr operator
            (flattenLogicalConditions cl operator out)))
          \<le> sum_list (map nodes (flattenLogicalConditions cl operator out)) + nodes cr"
    by (rule LogicalCondition.IH(2))
  also have "\<dots> \<le> (sum_list (map nodes out) + nodes cl) + nodes cr"
    using LogicalCondition.IH(1) [of out] by simp
  finally show ?case by simp
qed simp_all

lemma nodes_flatten_top:
  "sum_list (map nodes (flattenLogicalConditions (LogicalCondition op cl cr) op []))
     \<le> nodes cl + nodes cr"
proof -
  have "sum_list (map nodes (flattenLogicalConditions cr op (flattenLogicalConditions cl op [])))
          \<le> sum_list (map nodes (flattenLogicalConditions cl op [])) + nodes cr"
    by (rule nodes_flatten)
  also have "\<dots> \<le> nodes cl + nodes cr"
    using nodes_flatten [of cl op "[]"] by simp
  finally show ?thesis by simp
qed

text \<open>
  \<open>renderCondition\<close>, with \<open>renderLogicalCondition\<close> (flatten, render every operand in
  order, combine) and \<open>renderNotCondition\<close> as its first two cases. \<open>renderChildren\<close> is
  the loop of \<open>renderLogicalCondition\<close> over the flattened operands; it threads the
  renderer state from one operand to the next and stops at the first error.
\<close>

function renderCondition :: "renderer \<Rightarrow> Condition \<Rightarrow> error + renderResult \<times> renderer"
  and renderChildren ::
    "renderer \<Rightarrow> Condition list \<Rightarrow> renderResult list \<Rightarrow> error + renderResult list \<times> renderer"
where
  "renderCondition r (LogicalCondition op cl cr) =
     (case renderChildren r (flattenLogicalConditions (LogicalCondition op cl cr) op []) [] of
        Inl e \<Rightarrow> Inl e
      | Inr rr \<Rightarrow> combineLogical op rr)"
| "renderCondition r (NotCondition c) =
     (case renderCondition r c of
        Inl e \<Rightarrow> Inl e
      | Inr cr \<Rightarrow> Inr (negateResult (fst cr), snd cr))"
| "renderCondition r (FieldPredicateCondition name) = renderFieldPredicate r name"
| "renderCondition r (ComparisonCondition cl op cr) = renderComparison r cl op cr"
| "renderCondition r (InCondition cl values) = renderInCondition r cl values"
| "renderCondition r (ElementInCondition element name) = renderElementInCondition r element name"
| "renderCondition r (ContainsCondition name v) = renderContainsCondition r name v"
| "renderCondition r (StartsWithCondition name v) = renderStartsWithCondition r name v"
| "renderCondition r (EndsWithCondition name v) = renderEndsWithCondition r name v"
| "renderCondition r (ListComprehensionCondition kind name iterVar predicate) =
     renderListComprehension r name predicate"
| "renderCondition r (SQLPredicateCondition name tmpl pargs ev) =
     renderSQLPredicateCondition r name tmpl pargs"
| "renderCondition r (ConstantCondition b) =
     (if b then Inr (resultTrivial, r) else Inr (resultUnsat, r))"
| "renderCondition r NilCondition = Inl (Errorf ''unsupported condition type %T'' [''<nil>''])"
| "renderChildren r [] rendered = Inr (rendered, r)"
| "renderChildren r (child # rest) rendered =
     (case renderCondition r child of
        Inl e \<Rightarrow> Inl e
      | Inr res \<Rightarrow> renderChildren (snd res) rest (rendered @ [fst res]))"
  by pat_completeness auto
termination
proof (relation "measure (\<lambda>x. case x of
                    Inl (r, c) \<Rightarrow> 3 * nodes c + 2
                  | Inr (r, cs, rendered) \<Rightarrow> 3 * sum_list (map nodes cs) + 3)")
  show "wf (measure (\<lambda>x. case x of
                    Inl (r, c) \<Rightarrow> 3 * nodes c + 2
                  | Inr (r, cs, rendered) \<Rightarrow> 3 * sum_list (map nodes cs) + 3))"
    by simp
next
  fix r :: renderer and op :: LogicalOperator and cl cr :: Condition
  show "(Inr (r, flattenLogicalConditions (LogicalCondition op cl cr) op [], []),
         Inl (r, LogicalCondition op cl cr))
        \<in> measure (\<lambda>x. case x of
                    Inl (r, c) \<Rightarrow> 3 * nodes c + 2
                  | Inr (r, cs, rendered) \<Rightarrow> 3 * sum_list (map nodes cs) + 3)"
    using nodes_flatten_top [of op cl cr] by simp
next
  fix r :: renderer and c :: Condition
  show "(Inl (r, c), Inl (r, NotCondition c))
        \<in> measure (\<lambda>x. case x of
                    Inl (r, c) \<Rightarrow> 3 * nodes c + 2
                  | Inr (r, cs, rendered) \<Rightarrow> 3 * sum_list (map nodes cs) + 3)"
    by simp
next
  fix r :: renderer and child :: Condition and rest :: "Condition list"
    and rendered :: "renderResult list"
  show "(Inl (r, child), Inr (r, child # rest, rendered))
        \<in> measure (\<lambda>x. case x of
                    Inl (r, c) \<Rightarrow> 3 * nodes c + 2
                  | Inr (r, cs, rendered) \<Rightarrow> 3 * sum_list (map nodes cs) + 3)"
    by simp
next
  fix r :: renderer and child :: Condition and rest :: "Condition list"
    and rendered :: "renderResult list" and res :: "renderResult \<times> renderer"
  have "0 < nodes child" by (cases child) simp_all
  then show "(Inr (snd res, rest, rendered @ [fst res]), Inr (r, child # rest, rendered))
        \<in> measure (\<lambda>x. case x of
                    Inl (r, c) \<Rightarrow> 3 * nodes c + 2
                  | Inr (r, cs, rendered) \<Rightarrow> 3 * sum_list (map nodes cs) + 3)"
    by simp
qed

definition Render :: "renderer \<Rightarrow> Condition \<Rightarrow> error + Statement" where
  "Render r cond =
     (case renderCondition r cond of
        Inl e \<Rightarrow> Inl e
      | Inr res \<Rightarrow>
          if unsatisfiable (fst res)
          then Inr \<lparr>SQL = ''1 = 0'', Args = [], NamedArgs = None\<rparr>
          else if trivial (fst res)
          then Inr \<lparr>SQL = [], Args = [], NamedArgs = None\<rparr>
          else Inr \<lparr>SQL = sql (fst res), Args = args (snd res), NamedArgs = None\<rparr>)"

definition RenderCondition ::
  "Schema \<Rightarrow> Condition \<Rightarrow> Bindings option \<Rightarrow> RenderOptions \<Rightarrow> error + Statement" where
  "RenderCondition sch cond b opts = Render (newRenderer sch opts b) cond"

record Program =
  program_schema :: Schema
  condition :: Condition

definition NewProgramFromCondition :: "Schema \<Rightarrow> Condition \<Rightarrow> Program" where
  "NewProgramFromCondition sch cond =
     \<lparr>program_schema = sch,
      condition = (case cond of NilCondition \<Rightarrow> ConstantCondition True | _ \<Rightarrow> cond)\<rparr>"


definition RenderSQL :: "Program \<Rightarrow> Bindings option \<Rightarrow> RenderOptions \<Rightarrow> error + Statement" where
  "RenderSQL p b opts = Render (newRenderer (program_schema p) opts b) (condition p)"

definition IsGranted :: "Program \<Rightarrow> Bindings option \<Rightarrow> EvalOptions \<Rightarrow> error + bool" where
  "IsGranted p vars opts = EvaluateCondition (program_schema p) (condition p) (varsOf vars) opts"


section \<open>Role and permission composer\<close>

text \<open>
  \<open>Permission[T]\<close> is an interface of the RBAC package. A permission is a value of an
  abstract type \<open>'p\<close>, and the interface is the record of what the composer calls on
  it: the methods \<open>ID\<close> and \<open>Match\<close>, the optional method \<open>CEL\<close> (\<open>None\<close> when the
  dynamic type has no such method, otherwise the expression or the error it returns),
  and the type switch \<open>isExactMatchOnlyPermission\<close>.
\<close>

record ('p, 'id) PermissionMethods =
  ID :: "'p \<Rightarrow> 'id"
  Match :: "'p \<Rightarrow> 'p \<Rightarrow> bool"
  CEL :: "'p \<Rightarrow> (error + string) option"
  isExactMatchOnlyPermission :: "'p \<Rightarrow> bool"














section \<open>Fixtures\<close>

text \<open>\<open>testSchema\<close> of \<open>engine_test.go\<close>: two scalar columns of table \<open>t\<close>.\<close>

definition creatorIdField :: Field where
  "creatorIdField =
     \<lparr>FieldName = ''creator_id'', Kind = FieldKindUnset, Type = FieldTypeInt,
      Column = \<lparr>Table = ''t'', ColumnName = ''creator_id''\<rparr>, JSONPath = [],
      AliasFor = [], SupportsContains = False, Expressions = Map.empty,
      AllowedComparisonOps = [CompareEq \<mapsto> True, CompareNeq \<mapsto> True]\<rparr>"

definition visibilityField :: Field where
  "visibilityField =
     \<lparr>FieldName = ''visibility'', Kind = FieldKindUnset, Type = FieldTypeString,
      Column = \<lparr>Table = ''t'', ColumnName = ''visibility''\<rparr>, JSONPath = [],
      AliasFor = [], SupportsContains = False, Expressions = Map.empty,
      AllowedComparisonOps = [CompareEq \<mapsto> True, CompareNeq \<mapsto> True]\<rparr>"

definition testSchema :: Schema where
  "testSchema =
     \<lparr>SchemaName = ''test'',
      Fields = [''creator_id'' \<mapsto> creatorIdField, ''visibility'' \<mapsto> visibilityField]\<rparr>"

text \<open>Render options that set the dialect only, as most tests pass them.\<close>

definition dialectOptions :: "DialectName \<Rightarrow> RenderOptions" where
  "dialectOptions d =
     \<lparr>Dialect = d, PlaceholderOffset = 0, TableAliases = Map.empty,
      OmitTableQualifier = False\<rparr>"

text \<open>The conditions that the filters of the tests compile to.\<close>

definition creatorIs :: "int \<Rightarrow> Condition" where
  "creatorIs n = ComparisonCondition (FieldRef ''creator_id'') CompareEq (LiteralValue (VInt n))"

definition visibilityIs :: "string \<Rightarrow> Condition" where
  "visibilityIs v =
     ComparisonCondition (FieldRef ''visibility'') CompareEq (LiteralValue (VString v))"

lemmas render_simps =
  RenderCondition_def Render_def newRenderer_def testSchema_def creatorIdField_def
  visibilityField_def dialectOptions_def
  creatorIs_def visibilityIs_def
  renderComparison_def renderComparisonField_def lookupField_def SchemaField_def
  ResolveAlias_def renderFieldComparison_def resolveValue_def columnExpr_def
  qualifyColumn_def comparisonSQL_def addArg_def addBoolArg_def combineLogical_def
  combineAndAll_def combineOrAll_def resultSQL_def resultUnsat_def resultTrivial_def
  show_int_def show_nat.simps digit_char_def

section \<open>Placeholder and argument agreement\<close>

text \<open>
  Claim C1. The claim: the placeholders of the rendered SQL and the returned arguments
  agree in number, for Postgres the numbers \<open>$N\<close> are \<open>offset+1 .. offset+K\<close>, and an
  argument added by an operand that is dropped afterwards does not stay in \<open>Args\<close>.
  The renderer breaks this: rendering \<open>(creator_id = 1 AND false) OR visibility = 'PUBLIC'\<close>
  for Postgres returns the single placeholder \<open>$2\<close> together with two arguments, the first
  of which belongs to the dropped operand.
\<close>

theorem Render_keeps_arg_of_dropped_operand:
  "RenderCondition testSchema
     (LogicalCondition LogicalOr
        (LogicalCondition LogicalAnd (creatorIs 1) (ConstantCondition False))
        (visibilityIs ''PUBLIC''))
     None (dialectOptions DialectPostgres)
   = Inr \<lparr>SQL = ''t.visibility = $2'', Args = [VInt 1, VString ''PUBLIC''], NamedArgs = None\<rparr>"
  by (simp add: render_simps)

section \<open>Render options for table qualifiers\<close>

text \<open>
  Claim C3. The claim: \<open>TableAliases\<close> replaces the table qualifier of a column and
  \<open>OmitTableQualifier\<close> removes it. \<open>newRenderer\<close> copies neither option into the
  renderer and \<open>qualifyColumn\<close> always prints the schema's table, so both options are
  without effect: the filter of \<open>TestRenderOptions_TableAliases_Postgres\<close> and of
  \<open>TestRenderOptions_OmitTableQualifier_Postgres\<close> renders with the qualifier \<open>t\<close>.
\<close>

theorem Render_ignores_table_options:
  "RenderCondition testSchema
     (LogicalCondition LogicalAnd (creatorIs 1) (visibilityIs ''PUBLIC''))
     None ((dialectOptions DialectPostgres)\<lparr>TableAliases := [''t'' \<mapsto> ''p'']\<rparr>)
   = Inr \<lparr>SQL = ''(t.creator_id = $1 AND t.visibility = $2)'',
          Args = [VInt 1, VString ''PUBLIC''], NamedArgs = None\<rparr>
   \<and> RenderCondition testSchema
     (LogicalCondition LogicalAnd (creatorIs 1) (visibilityIs ''PUBLIC''))
     None ((dialectOptions DialectPostgres)\<lparr>OmitTableQualifier := True\<rparr>)
   = Inr \<lparr>SQL = ''(t.creator_id = $1 AND t.visibility = $2)'',
          Args = [VInt 1, VString ''PUBLIC''], NamedArgs = None\<rparr>"
  by (simp add: render_simps)

text \<open>The same for every schema, condition, bindings and options.\<close>

lemma RenderCondition_table_options_unused:
  "RenderCondition sch cond b (opts\<lparr>TableAliases := ta, OmitTableQualifier := omit\<rparr>)
   = RenderCondition sch cond b opts"
  by (simp add: RenderCondition_def newRenderer_def)

section \<open>The named-arguments dialect\<close>

text \<open>
  Claim C4. The claim: with \<open>DialectPostgresNamedArgs\<close> the SQL uses \<open>@pN\<close>, the values
  go to \<open>NamedArgs\<close> under \<open>pN\<close> and \<open>Args\<close> stays empty. The renderer has no case for
  this dialect: \<open>addArg\<close> prints \<open>?\<close> and appends to \<open>Args\<close>, \<open>qualifyColumn\<close> quotes with
  backticks, and \<open>Render\<close> never sets \<open>NamedArgs\<close>.
\<close>

theorem Render_named_args_dialect_positional:
  "RenderCondition testSchema (creatorIs 123) None (dialectOptions DialectPostgresNamedArgs)
   = Inr \<lparr>SQL = ''`t`.`creator_id` = ?'', Args = [VInt 123], NamedArgs = None\<rparr>"
  by (simp add: render_simps)

text \<open>No render returns named arguments, whatever the dialect.\<close>

lemma Render_NamedArgs_None:
  "Render r cond = Inr st \<Longrightarrow> NamedArgs st = None"
  by (auto simp: Render_def split: sum.splits if_splits)

section \<open>Programs built from a nil condition\<close>

text \<open>
  Claim C10. \<open>NewProgramFromCondition\<close> with a nil condition stores \<open>Constant(true)\<close>;
  for every variable map \<open>IsGranted\<close> returns true without an error, and for every
  bindings and render options \<open>RenderSQL\<close> returns the statement with empty SQL and no
  arguments.
\<close>

theorem NewProgramFromCondition_nil_allows_all:
  "condition (NewProgramFromCondition sch NilCondition) = ConstantCondition True
   \<and> IsGranted (NewProgramFromCondition sch NilCondition) vars eopts = Inr True
   \<and> RenderSQL (NewProgramFromCondition sch NilCondition) b ropts
       = Inr \<lparr>SQL = [], Args = [], NamedArgs = None\<rparr>"
  by (simp add: NewProgramFromCondition_def IsGranted_def RenderSQL_def Render_def
        resultTrivial_def)

theorem NewProgramFromCondition_nil_allows_all_witness:
  "condition (NewProgramFromCondition testSchema NilCondition) = ConstantCondition True
   \<and> IsGranted (NewProgramFromCondition testSchema NilCondition) None EvalOptions = Inr True
   \<and> RenderSQL (NewProgramFromCondition testSchema NilCondition) None
        (dialectOptions DialectSQLite)
       = Inr \<lparr>SQL = [], Args = [], NamedArgs = None\<rparr>"
  using NewProgramFromCondition_nil_allows_all
          [of testSchema None EvalOptions None "dialectOptions DialectSQLite"]
  by simp


section \<open>Comparisons with null\<close>

text \<open>
  Claim C6. A comparison of a scalar field (a field whose kind, after alias resolution,
  is neither \<open>json_bool\<close> nor \<open>json_list\<close>) with a right operand that resolves to null
  renders \<open>col IS NULL\<close> for \<open>=\<close>, \<open>col IS NOT NULL\<close> for \<open>!=\<close>, and is an error for every
  other operator. The evaluator, when one of the two operand values is null, returns
  whether the values are equal for \<open>=\<close>, whether they differ for \<open>!=\<close>, and an error for
  every other operator.
\<close>

theorem null_comparison:
  "(lookupField r name = Inr field \<and> Kind field \<noteq> FieldKindJSONBool
      \<and> Kind field \<noteq> FieldKindJSONList \<and> resolveValue r right = Inr VNil
    \<longrightarrow> renderComparison r (FieldRef name) op right =
          (case op of
             CompareEq \<Rightarrow> Inr (resultSQL (columnExpr field (dialect r) @ '' IS NULL''), r)
           | CompareNeq \<Rightarrow> Inr (resultSQL (columnExpr field (dialect r) @ '' IS NOT NULL''), r)
           | _ \<Rightarrow> Inl (Errorf ''operator %s not supported for null comparison'' [op_string op])))
   \<and> (evalValueExpr sch cl vars = Inr lv \<and> evalValueExpr sch cr vars = Inr rv
        \<and> (lv = VNil \<or> rv = VNil)
    \<longrightarrow> evalComparison sch cl op cr vars =
          (case op of
             CompareEq \<Rightarrow> Inr (lv = rv)
           | CompareNeq \<Rightarrow> Inr (lv \<noteq> rv)
           | _ \<Rightarrow> Inl (Errorf ''operator %s not supported for null comparison'' [op_string op])))"
proof (intro conjI impI)
  assume h: "lookupField r name = Inr field \<and> Kind field \<noteq> FieldKindJSONBool
      \<and> Kind field \<noteq> FieldKindJSONList \<and> resolveValue r right = Inr VNil"
  then have "renderComparison r (FieldRef name) op right = renderFieldComparison r field op right"
    by (cases "Kind field") (simp_all add: renderComparison_def renderComparisonField_def)
  also have "\<dots> = (case op of
             CompareEq \<Rightarrow> Inr (resultSQL (columnExpr field (dialect r) @ '' IS NULL''), r)
           | CompareNeq \<Rightarrow> Inr (resultSQL (columnExpr field (dialect r) @ '' IS NOT NULL''), r)
           | _ \<Rightarrow> Inl (Errorf ''operator %s not supported for null comparison'' [op_string op]))"
    using h by (cases op) (simp_all add: renderFieldComparison_def)
  finally show "renderComparison r (FieldRef name) op right =
          (case op of
             CompareEq \<Rightarrow> Inr (resultSQL (columnExpr field (dialect r) @ '' IS NULL''), r)
           | CompareNeq \<Rightarrow> Inr (resultSQL (columnExpr field (dialect r) @ '' IS NOT NULL''), r)
           | _ \<Rightarrow> Inl (Errorf ''operator %s not supported for null comparison'' [op_string op]))" .
next
  assume "evalValueExpr sch cl vars = Inr lv \<and> evalValueExpr sch cr vars = Inr rv
        \<and> (lv = VNil \<or> rv = VNil)"
  then show "evalComparison sch cl op cr vars =
          (case op of
             CompareEq \<Rightarrow> Inr (lv = rv)
           | CompareNeq \<Rightarrow> Inr (lv \<noteq> rv)
           | _ \<Rightarrow> Inl (Errorf ''operator %s not supported for null comparison'' [op_string op]))"
    by (cases op) (auto simp: evalComparison_def)
qed

text \<open>
  At \<open>creator_id != null\<close> for Postgres, and at the evaluation of \<open>null < 1\<close>: the
  hypotheses hold and the results are \<open>t.creator_id IS NOT NULL\<close> and an error.
\<close>

theorem null_comparison_witness:
  "lookupField (newRenderer testSchema (dialectOptions DialectPostgres) None) ''creator_id''
     = Inr creatorIdField
   \<and> Kind creatorIdField \<noteq> FieldKindJSONBool \<and> Kind creatorIdField \<noteq> FieldKindJSONList
   \<and> resolveValue (newRenderer testSchema (dialectOptions DialectPostgres) None)
        (LiteralValue VNil) = Inr VNil
   \<and> renderComparison (newRenderer testSchema (dialectOptions DialectPostgres) None)
        (FieldRef ''creator_id'') CompareNeq (LiteralValue VNil)
      = Inr (resultSQL ''t.creator_id IS NOT NULL'',
             newRenderer testSchema (dialectOptions DialectPostgres) None)
   \<and> evalValueExpr testSchema (LiteralValue VNil) Map.empty = Inr VNil
   \<and> evalValueExpr testSchema (LiteralValue (VInt 1)) Map.empty = Inr (VInt 1)
   \<and> evalComparison testSchema (LiteralValue VNil) CompareLt (LiteralValue (VInt 1)) Map.empty
      = Inl (Errorf ''operator %s not supported for null comparison'' [''<''])"
proof -
  let ?r = "newRenderer testSchema (dialectOptions DialectPostgres) None"
  have h1: "lookupField ?r ''creator_id'' = Inr creatorIdField"
    by (simp add: lookupField_def SchemaField_def newRenderer_def testSchema_def
          creatorIdField_def)
  have h2: "Kind creatorIdField \<noteq> FieldKindJSONBool \<and> Kind creatorIdField \<noteq> FieldKindJSONList"
    by (simp add: creatorIdField_def)
  have h3: "resolveValue ?r (LiteralValue VNil) = Inr VNil"
    by (simp add: resolveValue_def)
  have c: "columnExpr creatorIdField (dialect ?r) = ''t.creator_id''"
    by (simp add: columnExpr_def qualifyColumn_def creatorIdField_def newRenderer_def
          dialectOptions_def)
  note a = null_comparison [where r = ?r and name = "''creator_id''" and field = creatorIdField
         and right = "LiteralValue VNil" and op = CompareNeq]
  note b = null_comparison [where sch = testSchema and cl = "LiteralValue VNil"
         and vars = Map.empty and lv = VNil and cr = "LiteralValue (VInt 1)" and rv = "VInt 1"
         and op = CompareLt]
  from a b h1 h2 h3 c
  show ?thesis by simp
qed


section \<open>Placeholders of SQL predicates\<close>

text \<open>
  The specification's reading of the second pass: the \<open>?\<close> signs of the template are
  replaced, from left to right, by the placeholders in their order (a \<open>?\<close> for which no
  placeholder is left stays).
\<close>

fun substitute :: "string \<Rightarrow> string list \<Rightarrow> string" where
  "substitute [] phs = []"
| "substitute (c # cs) phs =
     (if c = CHR ''?'' then (case phs of [] \<Rightarrow> c # substitute cs [] | p # ps \<Rightarrow> p @ substitute cs ps)
      else c # substitute cs phs)"

text \<open>The placeholder that the dialect prints for the \<open>n\<close>-th argument of a render.\<close>

definition placeholderText :: "DialectName \<Rightarrow> int \<Rightarrow> int \<Rightarrow> string" where
  "placeholderText d off n = (if d = DialectPostgres then CHR ''$'' # show_int (off + n) else ''?'')"

text \<open>The dialect coercion of a bool argument: SQLite stores it as the integer 1 or 0.\<close>

definition coerceArg :: "DialectName \<Rightarrow> val \<Rightarrow> val" where
  "coerceArg d v =
     (case v of
        VBool b \<Rightarrow> if d = DialectSQLite then VInt (if b then 1 else 0) else VBool b
      | _ \<Rightarrow> v)"

text \<open>The next \<open>n\<close> placeholders of a renderer, in the order of their allocation.\<close>

definition freshPlaceholders :: "renderer \<Rightarrow> nat \<Rightarrow> string list" where
  "freshPlaceholders r n =
     map (\<lambda>i. placeholderText (dialect r) (placeholderOffset r) (placeholderCounter r + 1 + int i))
       [0..<n]"

lemma HasPrefix_single: "HasPrefix s [c] = (case s of [] \<Rightarrow> False | x # xs \<Rightarrow> x = c)"
  by (cases s) simp_all

lemma Index_single: "(Index s [c] = None) = (c \<notin> set s)"
  by (induction s) (auto split: option.splits)

lemma Contains_single: "Contains s [c] = (c \<in> set s)"
  by (simp add: Contains_def Index_single)

lemma substitute_no_mark: "CHR ''?'' \<notin> set t \<Longrightarrow> substitute t phs = t"
  by (induction t) auto

lemma replaceLoop_ok:
  "i \<le> length phs \<Longrightarrow> i + count_list t (CHR ''?'') = length phs \<Longrightarrow>
   replaceLoop t phs i out = Inr (out @ substitute t (drop i phs))"
proof (induction t arbitrary: i out)
  case Nil
  then show ?case by simp
next
  case (Cons c t)
  show ?case
  proof (cases "c = CHR ''?''")
    case True
    with Cons.prems have lt: "i < length phs" by simp
    then have d: "drop i phs = phs ! i # drop (Suc i) phs"
      by (simp add: Cons_nth_drop_Suc)
    from True Cons.prems lt have "replaceLoop t phs (Suc i) (out @ phs ! i)
        = Inr ((out @ phs ! i) @ substitute t (drop (Suc i) phs))"
      by (intro Cons.IH) simp_all
    with True lt d show ?thesis by simp
  next
    case False
    with Cons show ?thesis by simp
  qed
qed

lemma replaceLoop_bad:
  "i \<le> length phs \<Longrightarrow> i + count_list t (CHR ''?'') \<noteq> length phs \<Longrightarrow>
   \<exists>e. replaceLoop t phs i out = Inl e"
proof (induction t arbitrary: i out)
  case Nil
  then show ?case by simp
next
  case (Cons c t)
  show ?case
  proof (cases "c = CHR ''?''")
    case True
    show ?thesis
    proof (cases "i < length phs")
      case lt: True
      from True Cons.prems lt have "\<exists>e. replaceLoop t phs (Suc i) (out @ phs ! i) = Inl e"
        by (intro Cons.IH) simp_all
      with True lt show ?thesis by simp
    next
      case False
      with True show ?thesis by simp
    qed
  next
    case False
    with Cons show ?thesis by simp
  qed
qed

lemma replace_ok:
  "count_list t (CHR ''?'') = length phs \<Longrightarrow> replaceSQLArgPlaceholders t phs = Inr (substitute t phs)"
proof (cases phs)
  case Nil
  assume "count_list t (CHR ''?'') = length phs"
  with Nil have "CHR ''?'' \<notin> set t" by (simp add: count_list_0_iff)
  with Nil show ?thesis
    by (simp add: replaceSQLArgPlaceholders_def Contains_single substitute_no_mark)
next
  case (Cons p ps)
  assume "count_list t (CHR ''?'') = length phs"
  with Cons replaceLoop_ok [of 0 phs t "[]"] show ?thesis
    by (simp add: replaceSQLArgPlaceholders_def)
qed

lemma replace_bad:
  "count_list t (CHR ''?'') \<noteq> length phs \<Longrightarrow> \<exists>e. replaceSQLArgPlaceholders t phs = Inl e"
proof (cases phs)
  case Nil
  assume "count_list t (CHR ''?'') \<noteq> length phs"
  with Nil have "CHR ''?'' \<in> set t" by (simp add: count_list_0_iff)
  with Nil show ?thesis
    by (simp add: replaceSQLArgPlaceholders_def Contains_single)
next
  case (Cons p ps)
  assume "count_list t (CHR ''?'') \<noteq> length phs"
  with Cons replaceLoop_bad [of 0 phs t "[]"] show ?thesis
    by (simp add: replaceSQLArgPlaceholders_def)
qed

lemma resolveValue_cong: "bindings r' = bindings r \<Longrightarrow> resolveValue r' e = resolveValue r e"
  by (cases e) (simp_all add: resolveValue_def)

lemma addArg_eq:
  "addArg r v = (placeholderText (dialect r) (placeholderOffset r) (placeholderCounter r + 1),
                 r\<lparr>placeholderCounter := placeholderCounter r + 1, args := args r @ [v]\<rparr>)"
  by (simp add: addArg_def placeholderText_def Let_def)

lemma addBoolArg_eq:
  "addBoolArg r b = addArg r (coerceArg (dialect r) (VBool b))"
  by (cases "dialect r") (simp_all add: addBoolArg_def coerceArg_def)

lemma predicatePlaceholders_fresh:
  "list_all2 (\<lambda>a v. resolveValue r a = Inr v) pargs vs \<Longrightarrow>
   predicatePlaceholders r pargs acc =
     Inr (acc @ freshPlaceholders r (length pargs),
          r\<lparr>placeholderCounter := placeholderCounter r + int (length pargs),
            args := args r @ map (coerceArg (dialect r)) vs\<rparr>)"
proof (induction pargs arbitrary: r vs acc)
  case Nil
  then show ?case by (simp add: freshPlaceholders_def)
next
  case (Cons a pargs)
  from Cons.prems obtain v vs' where vs: "vs = v # vs'" and a: "resolveValue r a = Inr v"
    and rest: "list_all2 (\<lambda>a v. resolveValue r a = Inr v) pargs vs'"
    by (auto simp: list_all2_Cons1)
  let ?r1 = "r\<lparr>placeholderCounter := placeholderCounter r + 1,
               args := args r @ [coerceArg (dialect r) v]\<rparr>"
  have step: "predicatePlaceholders r (a # pargs) acc =
        predicatePlaceholders ?r1 pargs
          (acc @ [placeholderText (dialect r) (placeholderOffset r) (placeholderCounter r + 1)])"
    using a by (cases v) (simp_all add: addBoolArg_eq addArg_eq coerceArg_def)
  have "list_all2 (\<lambda>a v. resolveValue ?r1 a = Inr v) pargs vs'"
    using rest by (simp add: resolveValue_cong [of ?r1 r])
  from Cons.IH [OF this] step vs show ?case
    by (simp add: freshPlaceholders_def map_upt_Suc add.assoc del: upt_Suc)
qed


text \<open>
  Claim C8. Rendering a registered \<open>sql()\<close> predicate whose template is not blank, whose
  \<open>{{field}}\<close> interpolation gives \<open>body\<close> and whose arguments resolve to \<open>vs\<close>: when
  \<open>body\<close> has as many \<open>?\<close> as there are arguments, each \<open>?\<close> is replaced in order by
  a freshly allocated placeholder, and the arguments are appended in order (a bool
  coerced as the dialect asks); when the numbers differ, in either direction, the render
  fails with an error.
\<close>

theorem sql_predicate_placeholders:
  "TrimSpace (template tmpl (dialect r)) \<noteq> []
   \<and> interpolateSQLColumns r (template tmpl (dialect r)) [] = Inr body
   \<and> list_all2 (\<lambda>a v. resolveValue r a = Inr v) pargs vs
   \<longrightarrow>
     (count_list body (CHR ''?'') = length pargs \<longrightarrow>
        renderSQLPredicateCondition r name tmpl pargs =
          Inr (if TrimSpace (substitute body (freshPlaceholders r (length pargs))) = []
               then resultTrivial
               else resultSQL (substitute body (freshPlaceholders r (length pargs))),
               r\<lparr>placeholderCounter := placeholderCounter r + int (length pargs),
                 args := args r @ map (coerceArg (dialect r)) vs\<rparr>))
     \<and> (count_list body (CHR ''?'') \<noteq> length pargs \<longrightarrow>
        (\<exists>e. renderSQLPredicateCondition r name tmpl pargs
               = Inl (Wrapf ''predicate %q: %w'' [name] e)))"
proof (intro impI conjI)
  assume h: "TrimSpace (template tmpl (dialect r)) \<noteq> []
   \<and> interpolateSQLColumns r (template tmpl (dialect r)) [] = Inr body
   \<and> list_all2 (\<lambda>a v. resolveValue r a = Inr v) pargs vs"
  then have pp: "predicatePlaceholders r pargs [] =
     Inr (freshPlaceholders r (length pargs),
          r\<lparr>placeholderCounter := placeholderCounter r + int (length pargs),
            args := args r @ map (coerceArg (dialect r)) vs\<rparr>)"
    using predicatePlaceholders_fresh [of r pargs vs "[]"] by simp
  have len: "length (freshPlaceholders r (length pargs)) = length pargs"
    by (simp add: freshPlaceholders_def)
  {
    assume "count_list body (CHR ''?'') = length pargs"
    then have "replaceSQLArgPlaceholders body (freshPlaceholders r (length pargs))
                 = Inr (substitute body (freshPlaceholders r (length pargs)))"
      using len by (intro replace_ok) simp
    with h pp show "renderSQLPredicateCondition r name tmpl pargs =
          Inr (if TrimSpace (substitute body (freshPlaceholders r (length pargs))) = []
               then resultTrivial
               else resultSQL (substitute body (freshPlaceholders r (length pargs))),
               r\<lparr>placeholderCounter := placeholderCounter r + int (length pargs),
                 args := args r @ map (coerceArg (dialect r)) vs\<rparr>)"
      by (simp add: renderSQLPredicateCondition_def)
  }
  {
    assume "count_list body (CHR ''?'') \<noteq> length pargs"
    then obtain e where "replaceSQLArgPlaceholders body (freshPlaceholders r (length pargs)) = Inl e"
      using len replace_bad [of body "freshPlaceholders r (length pargs)"] by auto
    with h pp show "\<exists>e. renderSQLPredicateCondition r name tmpl pargs
               = Inl (Wrapf ''predicate %q: %w'' [name] e)"
      by (simp add: renderSQLPredicateCondition_def)
  }
qed


text \<open>A predicate template in the style of \<open>sql_predicate_test.go\<close>.\<close>

definition memberSQL :: DialectSQL where
  "memberSQL = \<lparr>Default = [], SQLite = [], MySQL = [],
                 Postgres = ''m.pid = {{ creator_id }} AND m.uid = ?''\<rparr>"


text \<open>
  At the template \<open>m.pid = {{ creator_id }} AND m.uid = ?\<close> for Postgres: with one
  argument the render is \<open>m.pid = t.creator_id AND m.uid = $1\<close>, with none it fails.
\<close>

theorem sql_predicate_placeholders_witness:
  "TrimSpace (template memberSQL DialectPostgres) \<noteq> []
   \<and> interpolateSQLColumns (newRenderer testSchema (dialectOptions DialectPostgres) None)
         (template memberSQL DialectPostgres) [] = Inr ''m.pid = t.creator_id AND m.uid = ?''
   \<and> resolveValue (newRenderer testSchema (dialectOptions DialectPostgres) None)
         (LiteralValue (VInt 1001)) = Inr (VInt 1001)
   \<and> renderSQLPredicateCondition (newRenderer testSchema (dialectOptions DialectPostgres) None)
         ''member'' memberSQL [LiteralValue (VInt 1001)]
       = Inr (resultSQL ''m.pid = t.creator_id AND m.uid = $1'',
              (newRenderer testSchema (dialectOptions DialectPostgres) None)
                \<lparr>placeholderCounter := 1, args := [VInt 1001]\<rparr>)
   \<and> (\<exists>e. renderSQLPredicateCondition
              (newRenderer testSchema (dialectOptions DialectPostgres) None)
              ''member'' memberSQL []
            = Inl (Wrapf ''predicate %q: %w'' [''member''] e))"
proof -
  let ?r = "newRenderer testSchema (dialectOptions DialectPostgres) None"
  have d: "dialect ?r = DialectPostgres"
    by (simp add: newRenderer_def dialectOptions_def)
  have h1: "TrimSpace (template memberSQL DialectPostgres) \<noteq> []"
    by (simp add: template_def memberSQL_def TrimSpace_def is_space_def)
  have h2: "interpolateSQLColumns ?r (template memberSQL DialectPostgres) []
              = Inr ''m.pid = t.creator_id AND m.uid = ?''"
    by (simp add: template_def memberSQL_def newRenderer_def dialectOptions_def testSchema_def
          creatorIdField_def SchemaField_def columnExpr_def qualifyColumn_def TrimSpace_def
          is_space_def)
  have h3: "resolveValue ?r (LiteralValue (VInt 1001)) = Inr (VInt 1001)"
    by (simp add: resolveValue_def)
  have s: "substitute ''m.pid = t.creator_id AND m.uid = ?'' (freshPlaceholders ?r 1)
             = ''m.pid = t.creator_id AND m.uid = $1''"
    by (simp add: freshPlaceholders_def placeholderText_def newRenderer_def dialectOptions_def
          show_int_def show_nat.simps digit_char_def)
  note a = sql_predicate_placeholders [where r = ?r and tmpl = memberSQL
      and body = "''m.pid = t.creator_id AND m.uid = ?''"
      and pargs = "[LiteralValue (VInt 1001)]" and vs = "[VInt 1001]" and name = "''member''"]
  note b = sql_predicate_placeholders [where r = ?r and tmpl = memberSQL
      and body = "''m.pid = t.creator_id AND m.uid = ?''"
      and pargs = "[]" and vs = "[]" and name = "''member''"]
  have ra: "renderSQLPredicateCondition ?r ''member'' memberSQL [LiteralValue (VInt 1001)]
       = Inr (resultSQL ''m.pid = t.creator_id AND m.uid = $1'',
              ?r\<lparr>placeholderCounter := 1, args := [VInt 1001]\<rparr>)"
    using a h1 h2 h3 s d
    by (simp add: coerceArg_def TrimSpace_def is_space_def newRenderer_def)
  have rb: "\<exists>e. renderSQLPredicateCondition ?r ''member'' memberSQL []
            = Inl (Wrapf ''predicate %q: %w'' [''member''] e)"
    using b h1 h2 d by simp
  from h1 h2 h3 ra rb show ?thesis by blast
qed


section \<open>Membership in a list of values\<close>

text \<open>
  A floating-point number whose integral part is a 64-bit signed integer: what
  \<open>int64(v)\<close> converts in the same way on every platform.
\<close>

fun integral :: "float64 \<Rightarrow> bool" where
  "integral (Finite m e) = isInt64 (truncated m e)"
| "integral f = False"

text \<open>
  An element that fits a field type: a string for a string field; an integer, or a
  floating-point number with a 64-bit integral part, for an int or timestamp field;
  nothing for any other type.
\<close>

fun fits :: "FieldType \<Rightarrow> val \<Rightarrow> bool" where
  "fits FieldTypeString (VString s) = True"
| "fits FieldTypeInt (VInt n) = True"
| "fits FieldTypeInt (VFloat f) = integral f"
| "fits FieldTypeTimestamp (VInt n) = True"
| "fits FieldTypeTimestamp (VFloat f) = integral f"
| "fits ty v = False"




text \<open>
  Truncation goes towards zero. For a negative exponent \<open>e\<close>, the magnitude of the integral
  part of \<open>m * 2 ^ e\<close> is the largest integer whose multiple of \<open>2 ^ (- e)\<close> does not
  exceed the magnitude of \<open>m\<close>, and the integral part has the sign of \<open>m\<close> unless it is
  zero.
\<close>

lemma truncated_towards_zero:
  "e < 0 \<Longrightarrow>
   \<bar>truncated m e\<bar> * 2 ^ nat (- e) \<le> \<bar>m\<bar>
   \<and> \<bar>m\<bar> < (\<bar>truncated m e\<bar> + 1) * 2 ^ nat (- e)
   \<and> (truncated m e = 0 \<or> sgn (truncated m e) = sgn m)"
proof -
  assume e: "e < 0"
  let ?d = "(2::int) ^ nat (- e)"
  let ?q = "\<bar>m\<bar> div ?d"
  have d: "0 < ?d" by simp
  have q: "0 \<le> ?q" using d by (simp add: pos_imp_zdiv_nonneg_iff)
  have t: "truncated m e = sgn m * ?q" using e by (simp add: truncated_def)
  have a: "\<bar>truncated m e\<bar> = ?q"
  proof (cases "m = 0")
    case True then show ?thesis using t by simp
  next
    case False then show ?thesis using t q by (simp add: abs_mult)
  qed
  have lo: "?q * ?d \<le> \<bar>m\<bar>"
    using d by (metis div_mult_mod_eq le_add_same_cancel1 pos_mod_sign)
  have hi: "\<bar>m\<bar> < (?q + 1) * ?d"
    using d by (metis distrib_right div_mult_mod_eq mult_1 add_strict_left_mono pos_mod_bound)
  have s: "truncated m e = 0 \<or> sgn (truncated m e) = sgn m"
  proof (cases "?q = 0")
    case True then show ?thesis using t by simp
  next
    case False
    with q have "0 < ?q" by simp
    then show ?thesis using t by (simp add: sgn_mult)
  qed
  from a lo hi s show ?thesis by simp
qed

lemma fits_not_nil: "fits ty v \<Longrightarrow> v \<noteq> VNil"
  by (cases ty) auto









text \<open>
  The specification's flattening: a list value stands for its elements, any other value
  for itself.
\<close>

definition expandValue :: "val \<Rightarrow> val list" where
  "expandValue v = (case toAnySlice v of Some list \<Rightarrow> list | None \<Rightarrow> [v])"

definition flattenValues :: "val list \<Rightarrow> val list" where
  "flattenValues vs = concat (map expandValue vs)"

lemma renderFlatten_resolved:
  "list_all2 (\<lambda>a v. resolveValue r a = Inr v) exprs vs \<Longrightarrow>
   renderFlatten r exprs acc = Inr (acc @ flattenValues vs)"
proof (induction exprs arbitrary: vs acc)
  case Nil
  then show ?case by (simp add: flattenValues_def)
next
  case (Cons a exprs)
  from Cons.prems obtain v vs' where vs: "vs = v # vs'" and a: "resolveValue r a = Inr v"
    and rest: "list_all2 (\<lambda>a v. resolveValue r a = Inr v) exprs vs'"
    by (auto simp: list_all2_Cons1)
  show ?case
    using a vs Cons.IH [OF rest]
    by (cases "toAnySlice v") (simp_all add: flattenValues_def expandValue_def)
qed










section \<open>Boolean simplification\<close>

text \<open>
  No render result is both trivial and unsatisfiable: every result is one of the three
  literals of the source or an operand that is passed on.
\<close>

definition exclusive :: "renderResult \<Rightarrow> bool" where
  "exclusive res = (\<not> (trivial res \<and> unsatisfiable res))"

text \<open>The same for the outcome of a render function and of the operand loop.\<close>

definition okResult :: "error + renderResult \<times> renderer \<Rightarrow> bool" where
  "okResult x = (case x of Inl e \<Rightarrow> True | Inr res \<Rightarrow> exclusive (fst res))"

lemma okResult_simps [simp]:
  "okResult (Inl e)" "okResult (Inr (resultTrivial, r))" "okResult (Inr (resultUnsat, r))"
  "okResult (Inr (resultSQL s, r))"
  by (simp_all add: okResult_def exclusive_def resultTrivial_def resultUnsat_def resultSQL_def)

lemma okResult_comparisonSQL [simp]: "okResult (comparisonSQL lhs op pr)"
  by (simp add: comparisonSQL_def)

lemma okResult_foldResult [simp]: "okResult (foldResult r x)"
  by (simp add: foldResult_def split: sum.splits)

lemma okResult_renderFieldPredicate [simp]: "okResult (renderFieldPredicate r name)"
  by (simp add: renderFieldPredicate_def jsonBoolPredicate_def Let_def
       split: sum.splits FieldKind.splits DialectName.splits)

lemma okResult_renderFieldComparison [simp]: "okResult (renderFieldComparison r field op right)"
  by (simp add: renderFieldComparison_def Let_def
      split: sum.splits ComparisonOperator.splits FieldType.splits val.splits)

lemma okResult_renderJSONBoolComparison [simp]:
  "okResult (renderJSONBoolComparison r field op right)"
  by (simp add: renderJSONBoolComparison_def Let_def
      split: sum.splits ComparisonOperator.splits DialectName.splits val.splits)

lemma okResult_renderFunctionComparison [simp]:
  "okResult (renderFunctionComparison r fname fargs op right)"
  by (simp add: renderFunctionComparison_def Let_def
      split: sum.splits list.splits ValueExpr.splits)

lemma okResult_renderComparisonField [simp]: "okResult (renderComparisonField r name op right)"
  by (simp add: renderComparisonField_def split: sum.splits FieldKind.splits)

lemma okResult_renderComparison [simp]: "okResult (renderComparison r cl op cr)"
  by (simp add: renderComparison_def split: sum.splits ValueExpr.splits)

lemma okResult_renderAliasInList [simp]: "okResult (renderAliasInList r aliasName field exprs)"
  by (simp add: renderAliasInList_def split: sum.splits list.splits)

lemma okResult_renderInCondition [simp]: "okResult (renderInCondition r cl exprs)"
  by (simp add: renderInCondition_def split: sum.splits ValueExpr.splits option.splits)

lemma okResult_renderElementInCondition [simp]: "okResult (renderElementInCondition r el name)"
  by (simp add: renderElementInCondition_def Let_def
        split: sum.splits val.splits DialectName.splits)

lemma okResult_renderStringMatch [simp]: "okResult (renderStringMatch m p r name v)"
  by (simp add: renderStringMatch_def Let_def
        split: sum.splits val.splits DialectName.splits option.splits)

lemma okResult_renderListComprehension [simp]: "okResult (renderListComprehension r name p)"
  by (simp add: renderListComprehension_def renderJSONArrayStartsWith_def startsWithLike_def
        renderJSONArrayEndsWith_def renderJSONArrayContains_def Let_def
        split: sum.splits PredicateExpr.splits DialectName.splits)

lemma okResult_renderSQLPredicateCondition [simp]:
  "okResult (renderSQLPredicateCondition r name tmpl pargs)"
  by (simp add: renderSQLPredicateCondition_def Let_def split: sum.splits)

text \<open>The filtering loops in closed form.\<close>

lemma andFilter_eq:
  "andFilter conds acc =
     (if list_ex unsatisfiable conds then None
      else Some (acc @ filter (\<lambda>c. \<not> trivial c) conds))"
  by (induction conds arbitrary: acc) simp_all

lemma orFilter_eq:
  "orFilter conds acc =
     (if list_ex trivial conds then None
      else Some (acc @ filter (\<lambda>c. \<not> unsatisfiable c) conds))"
  by (induction conds arbitrary: acc) simp_all

lemma andFilter_exclusive:
  "list_all exclusive conds \<Longrightarrow> andFilter conds [] = Some f \<Longrightarrow> list_all exclusive f"
  by (auto simp: andFilter_eq list_all_iff split: if_splits)

lemma orFilter_exclusive:
  "list_all exclusive conds \<Longrightarrow> orFilter conds [] = Some f \<Longrightarrow> list_all exclusive f"
  by (auto simp: orFilter_eq list_all_iff split: if_splits)

lemma exclusive_shapes [simp]:
  "exclusive resultTrivial" "exclusive resultUnsat" "exclusive (resultSQL s)"
  by (simp_all add: exclusive_def resultTrivial_def resultUnsat_def resultSQL_def)

lemma exclusive_combineAndAll: "list_all exclusive rs \<Longrightarrow> exclusive (combineAndAll rs)"
  using andFilter_exclusive [of rs]
  by (auto simp: combineAndAll_def split: option.splits list.splits)

lemma exclusive_combineOrAll: "list_all exclusive rs \<Longrightarrow> exclusive (combineOrAll rs)"
  using orFilter_exclusive [of rs]
  by (auto simp: combineOrAll_def split: option.splits list.splits)

lemma okResult_combineLogical:
  "list_all exclusive (fst rr) \<Longrightarrow> okResult (combineLogical op rr)"
  by (cases op)
     (simp_all add: combineLogical_def okResult_def exclusive_combineAndAll
        exclusive_combineOrAll)

lemma exclusive_negateResult [simp]: "exclusive (negateResult c)"
  by (simp add: negateResult_def)

definition okResults :: "error + renderResult list \<times> renderer \<Rightarrow> bool" where
  "okResults x = (case x of Inl e \<Rightarrow> True | Inr rr \<Rightarrow> list_all exclusive (fst rr))"

lemma renderCondition_exclusive:
  "okResult (renderCondition r c)"
  "list_all exclusive rendered \<Longrightarrow> okResults (renderChildren r cs rendered)"
proof (induction r c and r cs rendered rule: renderCondition_renderChildren.induct)
  case (1 r op cl cr)
  then show ?case
    by (auto simp: okResults_def okResult_combineLogical split: sum.splits)
next
  case (2 r c)
  then show ?case
    by (auto simp: okResult_def split: sum.splits)
next
  case (15 r child rest rendered)
  show ?case
  proof (cases "renderCondition r child")
    case (Inl e)
    then show ?thesis by (simp add: okResults_def)
  next
    case (Inr res)
    with "15.IH"(1) have "exclusive (fst res)" by (simp add: okResult_def)
    with "15.prems" have "list_all exclusive (rendered @ [fst res])" by simp
    from "15.IH"(2) [OF Inr this] Inr show ?thesis by simp
  qed
qed (simp_all add: okResults_def renderContainsCondition_def renderStartsWithCondition_def
       renderEndsWithCondition_def)


lemma flatten_append:
  "flattenLogicalConditions c op out = out @ flattenLogicalConditions c op []"
proof (induction c arbitrary: out)
  case (LogicalCondition lop cl cr)
  show ?case
  proof (cases "lop = op")
    case True
    have "flattenLogicalConditions cr op (flattenLogicalConditions cl op out)
            = flattenLogicalConditions cl op out @ flattenLogicalConditions cr op []"
      by (rule LogicalCondition.IH(2))
    also have "\<dots> = out @ flattenLogicalConditions cl op [] @ flattenLogicalConditions cr op []"
      using LogicalCondition.IH(1) [of out] by simp
    also have "flattenLogicalConditions cl op [] @ flattenLogicalConditions cr op []
                 = flattenLogicalConditions cr op (flattenLogicalConditions cl op [])"
      using LogicalCondition.IH(2) [of "flattenLogicalConditions cl op []"] by simp
    finally show ?thesis using True by simp
  next
    case False
    then show ?thesis by simp
  qed
qed simp_all

lemma flatten_node:
  "flattenLogicalConditions (LogicalCondition op a b) op [] =
     flattenLogicalConditions a op [] @ flattenLogicalConditions b op []"
  using flatten_append [of b op "flattenLogicalConditions a op []"] by simp

text \<open>A condition that \<open>flattenLogicalConditions\<close> keeps as one operand.\<close>

fun operand :: "LogicalOperator \<Rightarrow> Condition \<Rightarrow> bool" where
  "operand op NilCondition = False"
| "operand op (LogicalCondition lop cl cr) = (lop \<noteq> op)"
| "operand op c = True"

lemma flatten_operand: "operand op c \<Longrightarrow> flattenLogicalConditions c op [] = [c]"
  by (cases c) simp_all

lemma not_operand:
  "\<not> operand op c \<Longrightarrow> c \<noteq> NilCondition \<Longrightarrow> \<exists>cl cr. c = LogicalCondition op cl cr"
  by (cases c) simp_all

lemma renderChildren_acc:
  "renderChildren r cs acc =
     (case renderChildren r cs [] of
        Inl e \<Rightarrow> Inl e
      | Inr rr \<Rightarrow> Inr (acc @ fst rr, snd rr))"
proof (induction cs arbitrary: r acc)
  case Nil
  then show ?case by simp
next
  case (Cons c cs)
  show ?case
  proof (cases "renderCondition r c")
    case (Inl e)
    then show ?thesis by simp
  next
    case (Inr res)
    have A: "renderChildren (snd res) cs (acc @ [fst res]) =
        (case renderChildren (snd res) cs [] of
           Inl e \<Rightarrow> Inl e
         | Inr rr \<Rightarrow> Inr ((acc @ [fst res]) @ fst rr, snd rr))"
      by (rule Cons.IH)
    have B: "renderChildren (snd res) cs [fst res] =
        (case renderChildren (snd res) cs [] of
           Inl e \<Rightarrow> Inl e
         | Inr rr \<Rightarrow> Inr ([fst res] @ fst rr, snd rr))"
      by (rule Cons.IH)
    show ?thesis
      using Inr A B by (cases "renderChildren (snd res) cs []") simp_all
  qed
qed

text \<open>Rendering a constant operand first: it adds its result and leaves the state.\<close>

lemma renderChildren_constant:
  "renderChildren r (ConstantCondition b # cs) [] =
     (case renderChildren r cs [] of
        Inl e \<Rightarrow> Inl e
      | Inr rr \<Rightarrow> Inr ((if b then resultTrivial else resultUnsat) # fst rr, snd rr))"
  using renderChildren_acc [of r cs "[resultTrivial]"] renderChildren_acc [of r cs "[resultUnsat]"]
  by (cases b; cases "renderChildren r cs []") simp_all

lemma combineAndAll_trivial [simp]: "combineAndAll (resultTrivial # rs) = combineAndAll rs"
  by (simp add: combineAndAll_def resultTrivial_def)

lemma combineAndAll_unsat [simp]: "combineAndAll (resultUnsat # rs) = resultUnsat"
  by (simp add: combineAndAll_def resultUnsat_def)

lemma combineOrAll_unsat [simp]: "combineOrAll (resultUnsat # rs) = combineOrAll rs"
  by (simp add: combineOrAll_def resultUnsat_def)

lemma combineOrAll_trivial [simp]: "combineOrAll (resultTrivial # rs) = resultTrivial"
  by (simp add: combineOrAll_def resultTrivial_def)

lemma combineAndAll_single:
  "combineAndAll [c] = (if unsatisfiable c then resultUnsat else if trivial c then resultTrivial else c)"
  by (simp add: combineAndAll_def)

lemma combineOrAll_single:
  "combineOrAll [c] = (if trivial c then resultTrivial else if unsatisfiable c then resultUnsat else c)"
  by (simp add: combineOrAll_def)

text \<open>
  A logical node with a constant on the left, in terms of the operands of the right
  side.
\<close>

lemma render_constant_left:
  "renderCondition r (LogicalCondition op (ConstantCondition b) X) =
     (case renderChildren r (flattenLogicalConditions X op []) [] of
        Inl e \<Rightarrow> Inl e
      | Inr rr \<Rightarrow>
          combineLogical op ((if b then resultTrivial else resultUnsat) # fst rr, snd rr))"
proof -
  have f: "flattenLogicalConditions (LogicalCondition op (ConstantCondition b) X) op []
             = ConstantCondition b # flattenLogicalConditions X op []"
    using flatten_append [of X op "[ConstantCondition b]"] by simp
  show ?thesis
    unfolding renderCondition.simps f renderChildren_constant
    by (cases "renderChildren r (flattenLogicalConditions X op []) []") simp_all
qed

lemma renderChildren_single:
  "renderChildren r [c] [] =
     (case renderCondition r c of Inl e \<Rightarrow> Inl e | Inr res \<Rightarrow> Inr ([fst res], snd res))"
  by (simp split: sum.splits)


lemma render_operand_right:
  "operand op X \<Longrightarrow>
   renderCondition r (LogicalCondition op (ConstantCondition b) X) =
     (case renderCondition r X of
        Inl e \<Rightarrow> Inl e
      | Inr res \<Rightarrow>
          combineLogical op ([if b then resultTrivial else resultUnsat, fst res], snd res))"
  unfolding render_constant_left
  by (cases "renderCondition r X") (simp_all add: flatten_operand)

lemma render_node_right:
  "renderCondition r (LogicalCondition op (ConstantCondition b) (LogicalCondition op cl cr)) =
     (case renderChildren r (flattenLogicalConditions (LogicalCondition op cl cr) op []) [] of
        Inl e \<Rightarrow> Inl e
      | Inr rr \<Rightarrow>
          combineLogical op ((if b then resultTrivial else resultUnsat) # fst rr, snd rr))"
  by (rule render_constant_left)

lemma Render_and_true:
  assumes "X \<noteq> NilCondition"
  shows "Render r (LogicalCondition LogicalAnd (ConstantCondition True) X) = Render r X"
proof (cases "operand LogicalAnd X")
  case True
  show ?thesis
  proof (cases "renderCondition r X")
    case (Inl e)
    then show ?thesis
      by (simp add: Render_def render_operand_right [OF True] del: renderCondition.simps)
  next
    case (Inr res)
    then have "renderCondition r (LogicalCondition LogicalAnd (ConstantCondition True) X)
                 = Inr (combineAndAll [fst res], snd res)"
      by (simp add: render_operand_right [OF True] combineLogical_def
            del: renderCondition.simps)
    with Inr show ?thesis
      by (simp add: Render_def combineAndAll_single resultUnsat_def resultTrivial_def)
  qed
next
  case False
  with assms obtain cl cr where X: "X = LogicalCondition LogicalAnd cl cr"
    using not_operand by blast
  have "renderCondition r (LogicalCondition LogicalAnd (ConstantCondition True) X)
          = renderCondition r X"
    unfolding X render_node_right
    by (cases "renderChildren r
                 (flattenLogicalConditions (LogicalCondition LogicalAnd cl cr) LogicalAnd []) []")
       (simp_all add: combineLogical_def)
  then show ?thesis by (simp add: Render_def)
qed

lemma Render_or_false:
  assumes "X \<noteq> NilCondition"
  shows "Render r (LogicalCondition LogicalOr (ConstantCondition False) X) = Render r X"
proof (cases "operand LogicalOr X")
  case True
  show ?thesis
  proof (cases "renderCondition r X")
    case (Inl e)
    then show ?thesis
      by (simp add: Render_def render_operand_right [OF True] del: renderCondition.simps)
  next
    case (Inr res)
    with renderCondition_exclusive(1) [of r X] have ex: "exclusive (fst res)"
      by (simp add: okResult_def)
    from Inr have "renderCondition r (LogicalCondition LogicalOr (ConstantCondition False) X)
                 = Inr (combineOrAll [fst res], snd res)"
      by (simp add: render_operand_right [OF True] combineLogical_def
            del: renderCondition.simps)
    with Inr ex show ?thesis
      by (auto simp: Render_def combineOrAll_single resultUnsat_def resultTrivial_def
            exclusive_def)
  qed
next
  case False
  with assms obtain cl cr where X: "X = LogicalCondition LogicalOr cl cr"
    using not_operand by blast
  have "renderCondition r (LogicalCondition LogicalOr (ConstantCondition False) X)
          = renderCondition r X"
    unfolding X render_node_right
    by (cases "renderChildren r
                 (flattenLogicalConditions (LogicalCondition LogicalOr cl cr) LogicalOr []) []")
       (simp_all add: combineLogical_def)
  then show ?thesis by (simp add: Render_def)
qed

text \<open>
  The operands of the right side render without an error exactly when the right side
  does (a nil right side has no operands).
\<close>

lemma children_of_right:
  "renderCondition r X = Inr res \<Longrightarrow> op = LogicalAnd \<or> op = LogicalOr \<Longrightarrow>
   \<exists>rr. renderChildren r (flattenLogicalConditions X op []) [] = Inr rr"
proof (cases "operand op X")
  case True
  assume "renderCondition r X = Inr res"
  with True show ?thesis by (simp add: flatten_operand)
next
  case False
  assume ok: "renderCondition r X = Inr res"
  then have "X \<noteq> NilCondition" by auto
  with False obtain cl cr where X: "X = LogicalCondition op cl cr"
    using not_operand by blast
  from ok show ?thesis
    unfolding X
    by (cases "renderChildren r (flattenLogicalConditions (LogicalCondition op cl cr) op []) []")
       simp_all
qed

lemma children_of_right_error:
  "renderCondition r X = Inl e \<Longrightarrow> X \<noteq> NilCondition \<Longrightarrow> op = LogicalAnd \<or> op = LogicalOr \<Longrightarrow>
   renderChildren r (flattenLogicalConditions X op []) [] = Inl e"
proof (cases "operand op X")
  case True
  assume "renderCondition r X = Inl e"
  with True show ?thesis by (simp add: flatten_operand)
next
  case False
  assume err: "renderCondition r X = Inl e" and "X \<noteq> NilCondition"
    and op: "op = LogicalAnd \<or> op = LogicalOr"
  with False obtain cl cr where X: "X = LogicalCondition op cl cr"
    using not_operand by blast
  from err op show ?thesis
    unfolding X
    by (cases "renderChildren r (flattenLogicalConditions (LogicalCondition op cl cr) op []) []")
       (auto simp: combineLogical_def)
qed

lemma Render_and_false:
  assumes "renderCondition r X = Inr res"
  shows "Render r (LogicalCondition LogicalAnd (ConstantCondition False) X)
           = Inr \<lparr>SQL = ''1 = 0'', Args = [], NamedArgs = None\<rparr>"
proof -
  from children_of_right [OF assms, of LogicalAnd]
  obtain rr where "renderChildren r (flattenLogicalConditions X LogicalAnd []) [] = Inr rr"
    by auto
  then have "renderCondition r (LogicalCondition LogicalAnd (ConstantCondition False) X)
               = Inr (resultUnsat, snd rr)"
    by (simp add: render_constant_left combineLogical_def del: renderCondition.simps)
  then show ?thesis
    by (simp add: Render_def resultUnsat_def del: renderCondition.simps)
qed

lemma Render_or_true:
  assumes "renderCondition r X = Inr res"
  shows "Render r (LogicalCondition LogicalOr (ConstantCondition True) X)
           = Inr \<lparr>SQL = [], Args = [], NamedArgs = None\<rparr>"
proof -
  from children_of_right [OF assms, of LogicalOr]
  obtain rr where "renderChildren r (flattenLogicalConditions X LogicalOr []) [] = Inr rr"
    by auto
  then have "renderCondition r (LogicalCondition LogicalOr (ConstantCondition True) X)
               = Inr (resultTrivial, snd rr)"
    by (simp add: render_constant_left combineLogical_def del: renderCondition.simps)
  then show ?thesis
    by (simp add: Render_def resultTrivial_def del: renderCondition.simps)
qed

lemma Render_constant_error:
  assumes "renderCondition r X = Inl e" and "X \<noteq> NilCondition"
    and "op = LogicalAnd \<or> op = LogicalOr"
  shows "Render r (LogicalCondition op (ConstantCondition b) X) = Inl e"
  using children_of_right_error [OF assms]
  by (simp add: Render_def render_constant_left del: renderCondition.simps)

lemma Render_ok_iff: "(\<exists>s. Render r X = Inr s) = (\<exists>res. renderCondition r X = Inr res)"
  by (cases "renderCondition r X") (auto simp: Render_def)

lemma Render_error_iff: "(Render r X = Inl e) = (renderCondition r X = Inl e)"
  by (cases "renderCondition r X") (auto simp: Render_def)


text \<open>The condition of the filter \<open>creator_id == p\<close> for a parameter \<open>p\<close>.\<close>

definition creatorIsParam :: "string \<Rightarrow> Condition" where
  "creatorIsParam p = ComparisonCondition (FieldRef ''creator_id'') CompareEq (ParamRef p)"

text \<open>
  The claim as stated makes \<open>AND(Constant(false), X)\<close> unsatisfiable for every \<open>X\<close>. The
  renderer renders every operand before it combines them, so an operand that fails makes
  the whole render fail: \<open>false && creator_id == current_user_id\<close> without bindings is
  an error, not \<open>1 = 0\<close>.
\<close>

theorem and_false_error_counterexample:
  "RenderCondition testSchema
     (LogicalCondition LogicalAnd (ConstantCondition False) (creatorIsParam ''current_user_id''))
     None (dialectOptions DialectPostgres)
   = Inl (Errorf ''missing bindings for %q'' [''current_user_id''])"
  by (simp add: render_simps creatorIsParam_def)

text \<open>
  Claim C2, amended. \<open>Constant(true)\<close> renders the statement with empty SQL and
  \<open>Constant(false)\<close> the statement \<open>1 = 0\<close>, both without arguments. For every non-nil
  condition \<open>X\<close> and fixed schema, bindings and options, \<open>AND(Constant(true), X)\<close> and
  \<open>OR(Constant(false), X)\<close> render as \<open>X\<close> does (the same statement or the same error).
  When \<open>X\<close> renders without an error, \<open>AND(Constant(false), X)\<close> is the unsatisfiable
  statement and \<open>OR(Constant(true), X)\<close> the trivial one; when \<open>X\<close> is not nil and its
  render fails, both fail with the error of \<open>X\<close>.
\<close>

theorem constant_simplification:
  "RenderCondition sch (ConstantCondition True) b opts
     = Inr \<lparr>SQL = [], Args = [], NamedArgs = None\<rparr>
   \<and> RenderCondition sch (ConstantCondition False) b opts
     = Inr \<lparr>SQL = ''1 = 0'', Args = [], NamedArgs = None\<rparr>
   \<and> (X \<noteq> NilCondition \<longrightarrow>
        RenderCondition sch (LogicalCondition LogicalAnd (ConstantCondition True) X) b opts
          = RenderCondition sch X b opts
        \<and> RenderCondition sch (LogicalCondition LogicalOr (ConstantCondition False) X) b opts
          = RenderCondition sch X b opts)
   \<and> ((\<exists>st. RenderCondition sch X b opts = Inr st) \<longrightarrow>
        RenderCondition sch (LogicalCondition LogicalAnd (ConstantCondition False) X) b opts
          = Inr \<lparr>SQL = ''1 = 0'', Args = [], NamedArgs = None\<rparr>
        \<and> RenderCondition sch (LogicalCondition LogicalOr (ConstantCondition True) X) b opts
          = Inr \<lparr>SQL = [], Args = [], NamedArgs = None\<rparr>)
   \<and> (X \<noteq> NilCondition \<and> RenderCondition sch X b opts = Inl e \<longrightarrow>
        RenderCondition sch (LogicalCondition LogicalAnd (ConstantCondition False) X) b opts
          = Inl e
        \<and> RenderCondition sch (LogicalCondition LogicalOr (ConstantCondition True) X) b opts
          = Inl e)"
proof (intro conjI impI)
  let ?r = "newRenderer sch opts b"
  show "RenderCondition sch (ConstantCondition True) b opts
          = Inr \<lparr>SQL = [], Args = [], NamedArgs = None\<rparr>"
    by (simp add: RenderCondition_def Render_def resultTrivial_def)
  show "RenderCondition sch (ConstantCondition False) b opts
          = Inr \<lparr>SQL = ''1 = 0'', Args = [], NamedArgs = None\<rparr>"
    by (simp add: RenderCondition_def Render_def resultUnsat_def)
  {
    assume "X \<noteq> NilCondition"
    then show
      "RenderCondition sch (LogicalCondition LogicalAnd (ConstantCondition True) X) b opts
          = RenderCondition sch X b opts"
      "RenderCondition sch (LogicalCondition LogicalOr (ConstantCondition False) X) b opts
          = RenderCondition sch X b opts"
      unfolding RenderCondition_def by (rule Render_and_true, rule Render_or_false)
  }
  {
    assume "\<exists>st. RenderCondition sch X b opts = Inr st"
    then obtain res where ok: "renderCondition ?r X = Inr res"
      unfolding RenderCondition_def Render_ok_iff by blast
    show
      "RenderCondition sch (LogicalCondition LogicalAnd (ConstantCondition False) X) b opts
          = Inr \<lparr>SQL = ''1 = 0'', Args = [], NamedArgs = None\<rparr>"
      unfolding RenderCondition_def by (rule Render_and_false [OF ok])
    show
      "RenderCondition sch (LogicalCondition LogicalOr (ConstantCondition True) X) b opts
          = Inr \<lparr>SQL = [], Args = [], NamedArgs = None\<rparr>"
      unfolding RenderCondition_def by (rule Render_or_true [OF ok])
  }
  {
    assume a: "X \<noteq> NilCondition \<and> RenderCondition sch X b opts = Inl e"
    then have err: "renderCondition ?r X = Inl e"
      by (simp add: RenderCondition_def Render_error_iff)
    from a have nn: "X \<noteq> NilCondition" by simp
    show
      "RenderCondition sch (LogicalCondition LogicalAnd (ConstantCondition False) X) b opts
          = Inl e"
      unfolding RenderCondition_def by (rule Render_constant_error [OF err nn]) simp
    show
      "RenderCondition sch (LogicalCondition LogicalOr (ConstantCondition True) X) b opts
          = Inl e"
      unfolding RenderCondition_def by (rule Render_constant_error [OF err nn]) simp
  }
qed

text \<open>
  At \<open>creator_id == 1\<close> (which renders) and at \<open>creator_id == current_user_id\<close> without
  bindings (which fails), for Postgres.
\<close>

theorem constant_simplification_witness:
  "creatorIs 1 \<noteq> NilCondition
   \<and> RenderCondition testSchema (creatorIs 1) None (dialectOptions DialectPostgres)
     = Inr \<lparr>SQL = ''t.creator_id = $1'', Args = [VInt 1], NamedArgs = None\<rparr>
   \<and> RenderCondition testSchema
       (LogicalCondition LogicalAnd (ConstantCondition True) (creatorIs 1))
       None (dialectOptions DialectPostgres)
     = Inr \<lparr>SQL = ''t.creator_id = $1'', Args = [VInt 1], NamedArgs = None\<rparr>
   \<and> RenderCondition testSchema
       (LogicalCondition LogicalOr (ConstantCondition False) (creatorIs 1))
       None (dialectOptions DialectPostgres)
     = Inr \<lparr>SQL = ''t.creator_id = $1'', Args = [VInt 1], NamedArgs = None\<rparr>
   \<and> RenderCondition testSchema
       (LogicalCondition LogicalAnd (ConstantCondition False) (creatorIs 1))
       None (dialectOptions DialectPostgres)
     = Inr \<lparr>SQL = ''1 = 0'', Args = [], NamedArgs = None\<rparr>
   \<and> RenderCondition testSchema
       (LogicalCondition LogicalOr (ConstantCondition True) (creatorIs 1))
       None (dialectOptions DialectPostgres)
     = Inr \<lparr>SQL = [], Args = [], NamedArgs = None\<rparr>
   \<and> creatorIsParam ''current_user_id'' \<noteq> NilCondition
   \<and> RenderCondition testSchema (creatorIsParam ''current_user_id'') None
       (dialectOptions DialectPostgres)
     = Inl (Errorf ''missing bindings for %q'' [''current_user_id''])
   \<and> RenderCondition testSchema
       (LogicalCondition LogicalOr (ConstantCondition True) (creatorIsParam ''current_user_id''))
       None (dialectOptions DialectPostgres)
     = Inl (Errorf ''missing bindings for %q'' [''current_user_id''])"
proof -
  have n1: "creatorIs 1 \<noteq> NilCondition" by (simp add: creatorIs_def)
  have n2: "creatorIsParam ''current_user_id'' \<noteq> NilCondition"
    by (simp add: creatorIsParam_def)
  have b1: "RenderCondition testSchema (creatorIs 1) None (dialectOptions DialectPostgres)
     = Inr \<lparr>SQL = ''t.creator_id = $1'', Args = [VInt 1], NamedArgs = None\<rparr>"
    by (simp add: render_simps)
  have b2: "RenderCondition testSchema (creatorIsParam ''current_user_id'') None
       (dialectOptions DialectPostgres)
     = Inl (Errorf ''missing bindings for %q'' [''current_user_id''])"
    by (simp add: render_simps creatorIsParam_def)
  note a = constant_simplification [where sch = testSchema and b = None
      and opts = "dialectOptions DialectPostgres" and X = "creatorIs 1"]
  note c = constant_simplification [where sch = testSchema and b = None
      and opts = "dialectOptions DialectPostgres" and X = "creatorIsParam ''current_user_id''"
      and e = "Errorf ''missing bindings for %q'' [''current_user_id'']"]
  from a n1 b1 c n2 b2 show ?thesis by simp
qed


section \<open>Membership through a virtual alias of a JSON list\<close>

text \<open>
  The specification's parts of the emission for one string value \<open>x\<close>: the
  exact-membership match with its argument, and the prefix match on the elements that
  begin with \<open>x/\<close>, with its \<open>LIKE\<close> pattern.
\<close>

definition exactMatchArg :: "DialectName \<Rightarrow> string \<Rightarrow> val" where
  "exactMatchArg d x =
     (if d = DialectSQLite then VString (''%'' @ dquote @ x @ dquote @ ''%'')
      else VString (dquote @ x @ dquote))"

definition exactMatchSQL :: "DialectName \<Rightarrow> string \<Rightarrow> string \<Rightarrow> string" where
  "exactMatchSQL d arrayExpr ph =
     (if d = DialectSQLite then arrayExpr @ '' LIKE '' @ ph
      else if d = DialectMySQL then ''JSON_CONTAINS('' @ arrayExpr @ '', '' @ ph @ '')''
      else arrayExpr @ '' @> jsonb_build_array('' @ ph @ ''::json)'')"

definition prefixMatchArg :: "string \<Rightarrow> val" where
  "prefixMatchArg x = VString (''%'' @ dquote @ x @ ''/%'')"

definition prefixMatchSQL :: "DialectName \<Rightarrow> string \<Rightarrow> string \<Rightarrow> string" where
  "prefixMatchSQL d arrayExpr ph =
     (if d = DialectPostgres then ''('' @ arrayExpr @ '')::text LIKE '' @ ph
      else arrayExpr @ '' LIKE '' @ ph)"

text \<open>
  What the specification emits for the values \<open>xs\<close> in order, the placeholder counter
  standing at \<open>k\<close>: for a hierarchical alias the exact match OR-ed with the prefix
  match (two arguments a value), otherwise the exact match alone (one argument).
\<close>

definition aliasMatchArgs :: "DialectName \<Rightarrow> bool \<Rightarrow> string \<Rightarrow> val list" where
  "aliasMatchArgs d hierarchical x =
     (if hierarchical then [exactMatchArg d x, prefixMatchArg x] else [exactMatchArg d x])"

fun aliasMatchConditions ::
  "DialectName \<Rightarrow> int \<Rightarrow> string \<Rightarrow> bool \<Rightarrow> int \<Rightarrow> string list \<Rightarrow> string list" where
  "aliasMatchConditions d off arrayExpr hierarchical k [] = []"
| "aliasMatchConditions d off arrayExpr hierarchical k (x # xs) =
     (if hierarchical then
        (''('' @ exactMatchSQL d arrayExpr (placeholderText d off (k + 1)) @ '' OR ''
          @ prefixMatchSQL d arrayExpr (placeholderText d off (k + 2)) @ '')'')
        # aliasMatchConditions d off arrayExpr hierarchical (k + 2) xs
      else
        exactMatchSQL d arrayExpr (placeholderText d off (k + 1))
        # aliasMatchConditions d off arrayExpr hierarchical (k + 1) xs)"

text \<open>The dialects for which \<open>renderAliasInList\<close> has a case.\<close>

definition supportedDialect :: "DialectName \<Rightarrow> bool" where
  "supportedDialect d = (d = DialectSQLite \<or> d = DialectMySQL \<or> d = DialectPostgres)"

lemma aliasInCondition_eq:
  "supportedDialect (dialect r) \<Longrightarrow>
   aliasInCondition r arrayExpr hierarchical x =
     Inr (hd (aliasMatchConditions (dialect r) (placeholderOffset r) arrayExpr hierarchical
                (placeholderCounter r) [x]),
          r\<lparr>placeholderCounter := placeholderCounter r + (if hierarchical then 2 else 1),
            args := args r @ aliasMatchArgs (dialect r) hierarchical x\<rparr>)"
  by (cases "dialect r")
     (simp_all add: supportedDialect_def aliasInCondition_def addArg_eq Let_def exactMatchSQL_def
        exactMatchArg_def prefixMatchSQL_def prefixMatchArg_def aliasMatchArgs_def add.commute)

lemma aliasInLoop_eq:
  "supportedDialect (dialect r) \<Longrightarrow>
   aliasInLoop r aliasName arrayExpr hierarchical (map VString xs) acc =
     Inr (acc @ aliasMatchConditions (dialect r) (placeholderOffset r) arrayExpr hierarchical
                  (placeholderCounter r) xs,
          r\<lparr>placeholderCounter :=
               placeholderCounter r + (if hierarchical then 2 else 1) * int (length xs),
            args := args r @ concat (map (aliasMatchArgs (dialect r) hierarchical) xs)\<rparr>)"
proof (induction xs arbitrary: r acc)
  case Nil
  then show ?case by simp
next
  case (Cons x xs)
  let ?r1 = "r\<lparr>placeholderCounter := placeholderCounter r + (if hierarchical then 2 else 1),
               args := args r @ aliasMatchArgs (dialect r) hierarchical x\<rparr>"
  have s: "supportedDialect (dialect ?r1)" using Cons.prems by simp
  show ?case
    using Cons.IH [OF s] Cons.prems
    by (simp add: aliasInCondition_eq algebra_simps)
qed


lemma evalFlatten_resolved:
  "list_all2 (\<lambda>a v. evalValueExpr sch a vars = Inr v) exprs vs \<Longrightarrow>
   evalFlatten sch exprs vars acc = Inr (acc @ flattenValues vs)"
proof (induction exprs arbitrary: vs acc)
  case Nil
  then show ?case by (simp add: flattenValues_def)
next
  case (Cons a exprs)
  from Cons.prems obtain v vs' where vs: "vs = v # vs'" and a: "evalValueExpr sch a vars = Inr v"
    and rest: "list_all2 (\<lambda>a v. evalValueExpr sch a vars = Inr v) exprs vs'"
    by (auto simp: list_all2_Cons1)
  show ?case
    using a vs Cons.IH [OF rest]
    by (cases "toAnySlice v") (simp_all add: flattenValues_def expandValue_def)
qed

text \<open>
  The specification's test of a list element against a value: equal, or for a
  hierarchical alias beginning with the value and \<open>/\<close>.
\<close>

definition aliasMatches :: "bool \<Rightarrow> string \<Rightarrow> string \<Rightarrow> bool" where
  "aliasMatches hierarchical item x = (item = x \<or> (hierarchical \<and> HasPrefix item (x @ ''/'')))"

lemma aliasCandidates_eq:
  "aliasCandidates aliasName hierarchical item (map VString xs) =
     Inr (list_ex (aliasMatches hierarchical item) xs)"
  by (induction xs) (auto simp: aliasMatches_def)

lemma aliasItems_eq:
  "aliasItems aliasName resolvedName hierarchical (map VString items) (map VString xs) =
     Inr (list_ex (\<lambda>item. list_ex (aliasMatches hierarchical item) xs) items)"
  by (induction items) (simp_all add: aliasCandidates_eq split: bool.splits)

text \<open>
  Claim C5. For an \<open>InCondition\<close> whose left side is a virtual alias of a JSON list
  field and whose values are the strings \<open>xs\<close> (not empty, for the renderer): the renderer
  emits for each value the exact-membership match, OR-ed with the prefix match (pattern
  \<open>%"x/%\<close>) exactly when the alias is named \<open>tag\<close>, and joins the values with \<open>OR\<close>;
  the evaluator returns true exactly when some list element equals some value or, only
  for the alias \<open>tag\<close>, begins with the value followed by \<open>/\<close>.
\<close>

theorem alias_in_list:
  "(SchemaField (schema r) name = Some aliasField \<and> Kind aliasField = FieldKindVirtualAlias
    \<and> ResolveAlias (schema r) name = Some field \<and> Kind field = FieldKindJSONList
    \<and> supportedDialect (dialect r)
    \<and> list_all2 (\<lambda>a v. resolveValue r a = Inr v) exprs vs
    \<and> flattenValues vs = map VString xs \<and> xs \<noteq> []
    \<longrightarrow> renderInCondition r (FieldRef name) exprs =
          Inr (resultSQL
                 (case aliasMatchConditions (dialect r) (placeholderOffset r)
                         (jsonArrayExpr (dialect r) field) (name = ''tag'')
                         (placeholderCounter r) xs of
                    [c] \<Rightarrow> c
                  | conditions \<Rightarrow> ''('' @ Join conditions '' OR '' @ '')''),
               r\<lparr>placeholderCounter :=
                    placeholderCounter r + (if name = ''tag'' then 2 else 1) * int (length xs),
                 args := args r @ concat (map (aliasMatchArgs (dialect r) (name = ''tag'')) xs)\<rparr>))
   \<and> (SchemaField sch name = Some aliasField \<and> Kind aliasField = FieldKindVirtualAlias
    \<and> ResolveAlias sch name = Some field \<and> Kind field = FieldKindJSONList
    \<and> vars (FieldName field) = Some (VList (map VString items))
    \<and> list_all2 (\<lambda>a v. evalValueExpr sch a vars = Inr v) exprs vs
    \<and> flattenValues vs = map VString xs
    \<longrightarrow> evalIn sch (FieldRef name) exprs vars =
          Inr (list_ex (\<lambda>item. list_ex (aliasMatches (name = ''tag'') item) xs) items))"
proof (intro conjI impI)
  assume h: "SchemaField (schema r) name = Some aliasField \<and> Kind aliasField = FieldKindVirtualAlias
    \<and> ResolveAlias (schema r) name = Some field \<and> Kind field = FieldKindJSONList
    \<and> supportedDialect (dialect r)
    \<and> list_all2 (\<lambda>a v. resolveValue r a = Inr v) exprs vs
    \<and> flattenValues vs = map VString xs \<and> xs \<noteq> []"
  then have fl: "renderFlatten r exprs [] = Inr (map VString xs)"
    using renderFlatten_resolved [of r exprs vs "[]"] by simp
  from h have "renderInCondition r (FieldRef name) exprs = renderAliasInList r name field exprs"
    by (simp add: renderInCondition_def)
  also have "\<dots> =
          Inr (resultSQL
                 (case aliasMatchConditions (dialect r) (placeholderOffset r)
                         (jsonArrayExpr (dialect r) field) (name = ''tag'')
                         (placeholderCounter r) xs of
                    [c] \<Rightarrow> c
                  | conditions \<Rightarrow> ''('' @ Join conditions '' OR '' @ '')''),
               r\<lparr>placeholderCounter :=
                    placeholderCounter r + (if name = ''tag'' then 2 else 1) * int (length xs),
                 args := args r @ concat (map (aliasMatchArgs (dialect r) (name = ''tag'')) xs)\<rparr>)"
    using h fl
    by (simp add: renderAliasInList_def aliasInLoop_eq split: list.splits)
  finally show "renderInCondition r (FieldRef name) exprs =
          Inr (resultSQL
                 (case aliasMatchConditions (dialect r) (placeholderOffset r)
                         (jsonArrayExpr (dialect r) field) (name = ''tag'')
                         (placeholderCounter r) xs of
                    [c] \<Rightarrow> c
                  | conditions \<Rightarrow> ''('' @ Join conditions '' OR '' @ '')''),
               r\<lparr>placeholderCounter :=
                    placeholderCounter r + (if name = ''tag'' then 2 else 1) * int (length xs),
                 args := args r @ concat (map (aliasMatchArgs (dialect r) (name = ''tag'')) xs)\<rparr>)" .
next
  assume h: "SchemaField sch name = Some aliasField \<and> Kind aliasField = FieldKindVirtualAlias
    \<and> ResolveAlias sch name = Some field \<and> Kind field = FieldKindJSONList
    \<and> vars (FieldName field) = Some (VList (map VString items))
    \<and> list_all2 (\<lambda>a v. evalValueExpr sch a vars = Inr v) exprs vs
    \<and> flattenValues vs = map VString xs"
  then have fl: "evalFlatten sch exprs vars [] = Inr (map VString xs)"
    using evalFlatten_resolved [of sch vars exprs vs "[]"] by simp
  from h have "evalIn sch (FieldRef name) exprs vars = evalInAlias sch name field exprs vars"
    by (simp add: evalIn_def)
  also have "\<dots> = Inr (list_ex (\<lambda>item. list_ex (aliasMatches (name = ''tag'') item) xs) items)"
    using h fl by (simp add: evalInAlias_def aliasItems_eq)
  finally show "evalIn sch (FieldRef name) exprs vars =
          Inr (list_ex (\<lambda>item. list_ex (aliasMatches (name = ''tag'') item) xs) items)" .
qed


text \<open>
  \<open>jsonSchema\<close> of \<open>json_comprehension_test.go\<close>: the JSON list \<open>tags\<close> and its alias
  \<open>tag\<close>, with a second alias \<open>label\<close> of the same list.
\<close>

definition tagsField :: Field where
  "tagsField =
     \<lparr>FieldName = ''tags'', Kind = FieldKindJSONList, Type = FieldTypeString,
      Column = \<lparr>Table = ''t'', ColumnName = ''payload''\<rparr>, JSONPath = [''tags''],
      AliasFor = [], SupportsContains = False, Expressions = Map.empty,
      AllowedComparisonOps = Map.empty\<rparr>"

definition aliasOfTags :: "string \<Rightarrow> Field" where
  "aliasOfTags name =
     \<lparr>FieldName = name, Kind = FieldKindVirtualAlias, Type = FieldTypeString,
      Column = \<lparr>Table = [], ColumnName = []\<rparr>, JSONPath = [],
      AliasFor = ''tags'', SupportsContains = False, Expressions = Map.empty,
      AllowedComparisonOps = Map.empty\<rparr>"

definition jsonSchema :: Schema where
  "jsonSchema =
     \<lparr>SchemaName = ''json'',
      Fields = [''tags'' \<mapsto> tagsField, ''tag'' \<mapsto> aliasOfTags ''tag'',
                ''label'' \<mapsto> aliasOfTags ''label'']\<rparr>"



text \<open>
  At \<open>tag in ["foo"]\<close> and \<open>label in ["foo"]\<close> for Postgres, and their evaluation on the
  list \<open>["foo/bar"]\<close>.
\<close>

theorem alias_in_list_witness:
  "SchemaField jsonSchema ''tag'' = Some (aliasOfTags ''tag'')
   \<and> SchemaField jsonSchema ''label'' = Some (aliasOfTags ''label'')
   \<and> Kind (aliasOfTags ''tag'') = FieldKindVirtualAlias
   \<and> ResolveAlias jsonSchema ''tag'' = Some tagsField
   \<and> ResolveAlias jsonSchema ''label'' = Some tagsField
   \<and> Kind tagsField = FieldKindJSONList
   \<and> flattenValues [VString ''foo''] = map VString [''foo'']
   \<and> renderInCondition (newRenderer jsonSchema (dialectOptions DialectPostgres) None)
        (FieldRef ''tag'') [LiteralValue (VString ''foo'')]
      = Inr (resultSQL
          ''(t.payload->'tags' @> jsonb_build_array($1::json) OR (t.payload->'tags')::text LIKE $2)'',
          (newRenderer jsonSchema (dialectOptions DialectPostgres) None)
            \<lparr>placeholderCounter := 2,
              args := [VString (dquote @ ''foo'' @ dquote), VString (''%'' @ dquote @ ''foo/%'')]\<rparr>)
   \<and> renderInCondition (newRenderer jsonSchema (dialectOptions DialectPostgres) None)
        (FieldRef ''label'') [LiteralValue (VString ''foo'')]
      = Inr (resultSQL ''t.payload->'tags' @> jsonb_build_array($1::json)'',
          (newRenderer jsonSchema (dialectOptions DialectPostgres) None)
            \<lparr>placeholderCounter := 1, args := [VString (dquote @ ''foo'' @ dquote)]\<rparr>)
   \<and> evalIn jsonSchema (FieldRef ''tag'') [LiteralValue (VString ''foo'')]
        [''tags'' \<mapsto> VList (map VString [''foo/bar''])] = Inr True
   \<and> evalIn jsonSchema (FieldRef ''label'') [LiteralValue (VString ''foo'')]
        [''tags'' \<mapsto> VList (map VString [''foo/bar''])] = Inr False"
proof -
  let ?r = "newRenderer jsonSchema (dialectOptions DialectPostgres) None"
  let ?vars = "[''tags'' \<mapsto> VList (map VString [''foo/bar''])]"
  have sr: "schema ?r = jsonSchema" "dialect ?r = DialectPostgres" "placeholderOffset ?r = 0"
    "placeholderCounter ?r = 0" "args ?r = []"
    by (simp_all add: newRenderer_def dialectOptions_def)
  have f1: "SchemaField jsonSchema ''tag'' = Some (aliasOfTags ''tag'')"
    and f2: "SchemaField jsonSchema ''label'' = Some (aliasOfTags ''label'')"
    by (simp_all add: SchemaField_def jsonSchema_def)
  have k: "\<And>n. Kind (aliasOfTags n) = FieldKindVirtualAlias"
    "\<And>n. AliasFor (aliasOfTags n) = ''tags''"
    by (simp_all add: aliasOfTags_def)
  have a1: "ResolveAlias jsonSchema ''tag'' = Some tagsField"
    and a2: "ResolveAlias jsonSchema ''label'' = Some tagsField"
    by (simp_all add: ResolveAlias_def jsonSchema_def k)
  have kt: "Kind tagsField = FieldKindJSONList" "FieldName tagsField = ''tags''"
    by (simp_all add: tagsField_def)
  have fl: "flattenValues [VString ''foo''] = map VString [''foo'']"
    by (simp add: flattenValues_def expandValue_def)
  have sup: "supportedDialect DialectPostgres" by (simp add: supportedDialect_def)
  have arr: "jsonArrayExpr DialectPostgres tagsField = ''t.payload->'tags'' @ apostrophe"
    by (simp add: jsonArrayExpr_def qualifyColumn_def tagsField_def apostrophe_def)
  have ph: "placeholderText DialectPostgres 0 1 = ''$1''"
    "placeholderText DialectPostgres 0 2 = ''$2''"
    by (simp_all add: placeholderText_def show_int_def show_nat.simps digit_char_def)
  have rs: "resolveValue ?r (LiteralValue (VString ''foo'')) = Inr (VString ''foo'')"
    by (simp add: resolveValue_def)
  have es: "evalValueExpr jsonSchema (LiteralValue (VString ''foo'')) ?vars = Inr (VString ''foo'')"
    by simp
  note t1 = alias_in_list [where r = ?r and sch = jsonSchema and name = "''tag''"
      and aliasField = "aliasOfTags ''tag''" and field = tagsField
      and exprs = "[LiteralValue (VString ''foo'')]" and vs = "[VString ''foo'']"
      and xs = "[''foo'']" and vars = ?vars and items = "[''foo/bar'']"]
  note t2 = alias_in_list [where r = ?r and sch = jsonSchema and name = "''label''"
      and aliasField = "aliasOfTags ''label''" and field = tagsField
      and exprs = "[LiteralValue (VString ''foo'')]" and vs = "[VString ''foo'']"
      and xs = "[''foo'']" and vars = ?vars and items = "[''foo/bar'']"]
  have r1: "renderInCondition ?r (FieldRef ''tag'') [LiteralValue (VString ''foo'')]
      = Inr (resultSQL
          ''(t.payload->'tags' @> jsonb_build_array($1::json) OR (t.payload->'tags')::text LIKE $2)'',
          ?r\<lparr>placeholderCounter := 2,
              args := [VString (dquote @ ''foo'' @ dquote), VString (''%'' @ dquote @ ''foo/%'')]\<rparr>)"
    using t1 sr f1 k a1 kt fl sup arr ph rs
    by (simp add: exactMatchSQL_def prefixMatchSQL_def aliasMatchArgs_def exactMatchArg_def
          prefixMatchArg_def apostrophe_def)
  have r2: "renderInCondition ?r (FieldRef ''label'') [LiteralValue (VString ''foo'')]
      = Inr (resultSQL ''t.payload->'tags' @> jsonb_build_array($1::json)'',
          ?r\<lparr>placeholderCounter := 1, args := [VString (dquote @ ''foo'' @ dquote)]\<rparr>)"
    using t2 sr f2 k a2 kt fl sup arr ph rs
    by (simp add: exactMatchSQL_def prefixMatchSQL_def aliasMatchArgs_def exactMatchArg_def
          prefixMatchArg_def apostrophe_def)
  have e1: "evalIn jsonSchema (FieldRef ''tag'') [LiteralValue (VString ''foo'')] ?vars = Inr True"
    using t1 f1 k a1 kt fl es by (simp add: aliasMatches_def)
  have e2: "evalIn jsonSchema (FieldRef ''label'') [LiteralValue (VString ''foo'')] ?vars
              = Inr False"
    using t2 f2 k a2 kt fl es by (simp add: aliasMatches_def)
  from f1 f2 k(1) a1 a2 kt(1) fl r1 r2 e1 e2 show ?thesis by blast
qed


section \<open>Composition across roles and permissions\<close>

text \<open>
  The composition as the specification words it. The assigned permissions of a role that
  match a required one: those of the exact-ID kind with the same ID, then those of the
  custom kind whose \<open>Match\<close> accepts it.
\<close>

definition matchingPermissions :: "('p, 'id) PermissionMethods \<Rightarrow> 'p list \<Rightarrow> 'p \<Rightarrow> 'p list" where
  "matchingPermissions m assigned requested =
     filter (\<lambda>a. isExactMatchOnlyPermission m a \<and> ID m a = ID m requested) assigned
     @ filter (\<lambda>a. \<not> isExactMatchOnlyPermission m a \<and> Match m a requested) assigned"

text \<open>A role contributes when every required permission has a match among its permissions.\<close>

definition contributes :: "('p, 'id) PermissionMethods \<Rightarrow> 'p list \<Rightarrow> 'p list \<Rightarrow> bool" where
  "contributes m required assigned =
     list_all (\<lambda>p. matchingPermissions m assigned p \<noteq> []) required"

text \<open>
  The AND over a list of conditions, read from its last element: \<open>Constant(true)\<close> for
  no condition, the condition itself for one, and otherwise the AND of what comes before
  the last condition with the last condition. \<open>allOfRev\<close> takes the list last element
  first.
\<close>

fun allOfRev :: "Condition list \<Rightarrow> Condition" where
  "allOfRev [] = ConstantCondition True"
| "allOfRev [c] = c"
| "allOfRev (c # cs) = LogicalCondition LogicalAnd (allOfRev cs) c"

definition allOf :: "Condition list \<Rightarrow> Condition" where
  "allOf cs = allOfRev (rev cs)"

text \<open>The OR over a list of conditions, in the same way, with \<open>Constant(false)\<close> for none.\<close>

fun anyOfRev :: "Condition list \<Rightarrow> Condition" where
  "anyOfRev [] = ConstantCondition False"
| "anyOfRev [c] = c"
| "anyOfRev (c # cs) = LogicalCondition LogicalOr (anyOfRev cs) c"

definition anyOf :: "Condition list \<Rightarrow> Condition" where
  "anyOf cs = anyOfRev (rev cs)"

text \<open>
  For a contributing role: the AND over the required permissions of the OR over the
  conditions of the matching permissions.
\<close>

definition roleCondition ::
  "('p, 'id) PermissionMethods \<Rightarrow> ('p \<Rightarrow> Condition) \<Rightarrow> 'p list \<Rightarrow> 'p list \<Rightarrow> Condition" where
  "roleCondition m variant required assigned =
     allOf (map (\<lambda>p. anyOf (map variant (matchingPermissions m assigned p))) required)"

text \<open>The OR across the contributing roles, \<open>Constant(false)\<close> when there is none.\<close>

definition composedCondition ::
  "('p, 'id) PermissionMethods \<Rightarrow> ('p \<Rightarrow> Condition) \<Rightarrow> 'p list \<Rightarrow> 'p list list \<Rightarrow> Condition" where
  "composedCondition m variant required closures =
     anyOf (map (roleCondition m variant required) (filter (contributes m required) closures))"






text \<open>
  What the two mean to the evaluator: on conditions that evaluate without an error, the
  AND over a list holds when every condition of the list holds, and the OR when some
  condition does.
\<close>

lemma allOf_snoc:
  "cs \<noteq> [] \<Longrightarrow> allOf (cs @ [c]) = LogicalCondition LogicalAnd (allOf cs) c"
  by (cases "rev cs") (simp_all add: allOf_def)

lemma anyOf_snoc:
  "cs \<noteq> [] \<Longrightarrow> anyOf (cs @ [c]) = LogicalCondition LogicalOr (anyOf cs) c"
  by (cases "rev cs") (simp_all add: anyOf_def)

lemma allOf_holds:
  "\<forall>c \<in> set cs. \<exists>b. EvaluateCondition sch c vars opts = Inr b \<Longrightarrow>
   EvaluateCondition sch (allOf cs) vars opts
     = Inr (\<forall>c \<in> set cs. EvaluateCondition sch c vars opts = Inr True)"
proof (induction cs rule: rev_induct)
  case Nil
  show ?case by (simp add: allOf_def)
next
  case (snoc x xs)
  from snoc.prems obtain b where x: "EvaluateCondition sch x vars opts = Inr b" by auto
  show ?case
  proof (cases "xs = []")
    case True
    with x show ?thesis by (simp add: allOf_def)
  next
    case False
    from snoc.prems have "\<forall>c \<in> set xs. \<exists>b. EvaluateCondition sch c vars opts = Inr b" by simp
    from snoc.IH [OF this] x show ?thesis
      by (auto simp: allOf_snoc [OF False])
  qed
qed

lemma anyOf_holds:
  "\<forall>c \<in> set cs. \<exists>b. EvaluateCondition sch c vars opts = Inr b \<Longrightarrow>
   EvaluateCondition sch (anyOf cs) vars opts
     = Inr (\<exists>c \<in> set cs. EvaluateCondition sch c vars opts = Inr True)"
proof (induction cs rule: rev_induct)
  case Nil
  show ?case by (simp add: anyOf_def)
next
  case (snoc x xs)
  from snoc.prems obtain b where x: "EvaluateCondition sch x vars opts = Inr b" by auto
  show ?case
  proof (cases "xs = []")
    case True
    with x show ?thesis by (simp add: anyOf_def)
  next
    case False
    from snoc.prems have "\<forall>c \<in> set xs. \<exists>b. EvaluateCondition sch c vars opts = Inr b" by simp
    from snoc.IH [OF this] x show ?thesis
      by (auto simp: anyOf_snoc [OF False])
  qed
qed

text \<open>
  So the composition holds for a row when some role has, for every required permission,
  a matching permission whose condition holds; a role that lacks a match for a required
  permission cannot be that role.
\<close>

lemma anyOf_variants_holds:
  assumes "\<forall>a \<in> set matching. \<exists>b. EvaluateCondition sch (variant a) vars opts = Inr b"
  shows "EvaluateCondition sch (anyOf (map variant matching)) vars opts
           = Inr (\<exists>a \<in> set matching. EvaluateCondition sch (variant a) vars opts = Inr True)"
  using anyOf_holds [of "map variant matching" sch vars opts] assms by auto

lemma roleCondition_holds:
  assumes "\<forall>p \<in> set required. \<forall>a \<in> set (matchingPermissions m assigned p).
             \<exists>b. EvaluateCondition sch (variant a) vars opts = Inr b"
  shows "EvaluateCondition sch (roleCondition m variant required assigned) vars opts
           = Inr (\<forall>p \<in> set required. \<exists>a \<in> set (matchingPermissions m assigned p).
                    EvaluateCondition sch (variant a) vars opts = Inr True)"
proof -
  have each: "\<forall>p \<in> set required.
      EvaluateCondition sch (anyOf (map variant (matchingPermissions m assigned p))) vars opts
        = Inr (\<exists>a \<in> set (matchingPermissions m assigned p).
                 EvaluateCondition sch (variant a) vars opts = Inr True)"
    using assms anyOf_variants_holds [of _ sch variant vars opts] by blast
  then have "\<forall>c \<in> set (map (\<lambda>p. anyOf (map variant (matchingPermissions m assigned p))) required).
               \<exists>b. EvaluateCondition sch c vars opts = Inr b"
    by auto
  from allOf_holds [OF this] each show ?thesis
    by (simp add: roleCondition_def)
qed

lemma composedCondition_holds:
  assumes "\<forall>assigned \<in> set closures. \<forall>p \<in> set required.
             \<forall>a \<in> set (matchingPermissions m assigned p).
               \<exists>b. EvaluateCondition sch (variant a) vars opts = Inr b"
  shows "EvaluateCondition sch (composedCondition m variant required closures) vars opts
           = Inr (\<exists>assigned \<in> set closures. \<forall>p \<in> set required.
                    \<exists>a \<in> set (matchingPermissions m assigned p).
                      EvaluateCondition sch (variant a) vars opts = Inr True)"
proof -
  let ?contributing = "filter (contributes m required) closures"
  let ?granted = "\<lambda>assigned. \<forall>p \<in> set required. \<exists>a \<in> set (matchingPermissions m assigned p).
                    EvaluateCondition sch (variant a) vars opts = Inr True"
  have each: "\<forall>assigned \<in> set closures.
      EvaluateCondition sch (roleCondition m variant required assigned) vars opts
        = Inr (?granted assigned)"
    using assms roleCondition_holds [of required m _ sch variant vars opts] by blast
  then have "\<forall>c \<in> set (map (roleCondition m variant required) ?contributing).
               \<exists>b. EvaluateCondition sch c vars opts = Inr b"
    by auto
  from anyOf_holds [OF this] each
  have main: "EvaluateCondition sch (composedCondition m variant required closures) vars opts
          = Inr (\<exists>assigned \<in> set ?contributing. ?granted assigned)"
    by (simp add: composedCondition_def)
  have nc: "\<And>assigned. ?granted assigned \<Longrightarrow> contributes m required assigned"
    by (fastforce simp: contributes_def list_all_iff)
  have "(\<exists>assigned \<in> set ?contributing. ?granted assigned)
          = (\<exists>assigned \<in> set closures. ?granted assigned)"
    using nc by auto
  with main show ?thesis by simp
qed

























end
